theory Spec2Isabelle
  imports Complex_Main
begin

section \<open>Data model\<close>

text \<open>
  The dashboards (\<^verbatim>\<open>app.py\<close>, reading BigQuery, and \<^verbatim>\<open>app_parquet.py\<close>, reading a
  parquet file) work on one pandas dataframe \<^verbatim>\<open>df\<close> of competition results. A dataframe
  is modelled as the list of its rows, in index order. Python floats are modelled as
  \<^typ>\<open>real\<close> (finite values, exact arithmetic); a missing number (NaN) is \<open>None\<close>.
\<close>

text \<open>
  A cell of a text column is a string or a null. pandas keeps a null of an object column
  either as Python's \<^verbatim>\<open>None\<close> or as a float NaN, and \<^verbatim>\<open>astype(str)\<close> prints the two
  differently.
\<close>

datatype obj = Str string | PyNone | NaN

fun notna_obj :: "obj \<Rightarrow> bool" where
  "notna_obj (Str s) = True"
| "notna_obj PyNone = False"
| "notna_obj NaN = False"

text \<open>
  \<^verbatim>\<open>series.astype(str)\<close> on one cell of an object column, as pandas 2 does it: a null
  becomes the text that Python's \<^verbatim>\<open>str\<close> gives it.
\<close>

fun astype_str :: "obj \<Rightarrow> string" where
  "astype_str (Str s) = s"
| "astype_str PyNone = ''None''"
| "astype_str NaN = ''nan''"

text \<open>\<^verbatim>\<open>series == value\<close> on one cell: a null equals nothing.\<close>

fun eq_obj :: "obj \<Rightarrow> string \<Rightarrow> bool" where
  "eq_obj (Str s) v = (s = v)"
| "eq_obj PyNone v = False"
| "eq_obj NaN v = False"

text \<open>Comparisons of a numeric cell with a bound: a comparison with NaN is False.\<close>

fun ge_cell :: "('a::linorder) option \<Rightarrow> 'a \<Rightarrow> bool" where
  "ge_cell (Some x) b = (x \<ge> b)"
| "ge_cell None b = False"

fun le_cell :: "('a::linorder) option \<Rightarrow> 'a \<Rightarrow> bool" where
  "le_cell (Some x) b = (x \<le> b)"
| "le_cell None b = False"

fun lt_cell :: "('a::linorder) option \<Rightarrow> 'a \<Rightarrow> bool" where
  "lt_cell (Some x) b = (x < b)"
| "lt_cell None b = False"

fun gt_cell :: "('a::linorder) option \<Rightarrow> 'a \<Rightarrow> bool" where
  "gt_cell (Some x) b = (x > b)"
| "gt_cell None b = False"

text \<open>\<^verbatim>\<open>series.between(lo, hi)\<close>, inclusive on both sides.\<close>

definition between :: "('a::linorder) option \<Rightarrow> 'a \<Rightarrow> 'a \<Rightarrow> bool" where
  "between c lo hi = (ge_cell c lo \<and> le_cell c hi)"

text \<open>A calendar date (the date part of a pandas Timestamp).\<close>

datatype pydate = PyDate (dyear: int) (dmonth: int) (dday: int)

text \<open>The columns of \<^verbatim>\<open>df\<close> that the filters, the comparison and the projections read.\<close>

record row =
  NameNormalized :: obj
  Sex :: obj
  Equipment :: obj
  Country :: obj
  AgeClass :: obj
  Year :: "int option"
  Date :: "pydate option"
  BodyweightKg :: "real option"
  Best3SquatKg :: "real option"
  Best3BenchKg :: "real option"
  Best3DeadliftKg :: "real option"
  TotalKg :: "real option"

text \<open>\<^verbatim>\<open>series.dropna()\<close> on a numeric column.\<close>

fun dropna :: "'a option list \<Rightarrow> 'a list" where
  "dropna [] = []"
| "dropna (None # xs) = dropna xs"
| "dropna (Some x # xs) = x # dropna xs"

section \<open>Percentile of a value in a cohort\<close>

text \<open>
  An entry of a series handed to \<^verbatim>\<open>pd.to_numeric(series, errors='coerce')\<close>: a number
  (or text that reads as the number), a NaN, or an entry that does not read as a number,
  which the coercion turns into NaN.
\<close>

datatype cell = Num real | Nan | NonNumeric

fun to_numeric_coerce :: "cell \<Rightarrow> real option" where
  "to_numeric_coerce (Num x) = Some x"
| "to_numeric_coerce Nan = None"
| "to_numeric_coerce NonNumeric = None"

text \<open>A float column seen as such a series.\<close>

fun float_cell :: "real option \<Rightarrow> cell" where
  "float_cell (Some x) = Num x"
| "float_cell None = Nan"

text \<open>
  \<^verbatim>\<open>
  def _percentile_less_than(series, value):
      s = pd.to_numeric(series, errors='coerce').dropna()
      if len(s) == 0:
          return 0.0
      return float((s < value).mean() * 100)
  \<close>
\<close>

definition percentile_less_than :: "cell list \<Rightarrow> real \<Rightarrow> real" where
  "percentile_less_than series v =
     (let s = dropna (map to_numeric_coerce series)
      in if length s = 0 then 0
         else real (length (filter (\<lambda>x. x < v) s)) / real (length s) * 100)"

text \<open>
  The comparison of \<^verbatim>\<open>app.py\<close> (tab "Comparador Personal"): the cohort is every row of
  the user's sex whose body weight is within 5 kg of the user's and whose total is not
  null.
  \<^verbatim>\<open>
  comp_df = df.copy()
  comp_df = comp_df[(comp_df["Sex"] == sex_in)]
  comp_df = comp_df[(comp_df["BodyweightKg"].between(bw_in - 5, bw_in + 5))]
  comp_df = comp_df.dropna(subset=["TotalKg"])
  \<close>
\<close>

definition comp_df :: "row list \<Rightarrow> string \<Rightarrow> real \<Rightarrow> row list" where
  "comp_df df sex_in bw_in =
     (let c = df;
          c = filter (\<lambda>r. eq_obj (Sex r) sex_in) c;
          c = filter (\<lambda>r. between (BodyweightKg r) (bw_in - 5) (bw_in + 5)) c;
          c = filter (\<lambda>r. TotalKg r \<noteq> None) c
      in c)"

text \<open>
  \<^verbatim>\<open>
  if not comp_df.empty:
      rank = (comp_df["TotalKg"] < total_in).sum()
      percentil = rank / len(comp_df) * 100
      ...
  else:
      st.warning("No se encontraron atletas comparables ...")
  \<close>
  The result is \<open>None\<close> on the warning branch, where no percentile is computed.
\<close>

definition simulador_percentil :: "row list \<Rightarrow> string \<Rightarrow> real \<Rightarrow> real \<Rightarrow> real option" where
  "simulador_percentil df sex_in bw_in total_in =
     (let c = comp_df df sex_in bw_in
      in if c \<noteq> [] then
           (let rank = length (filter (\<lambda>r. lt_cell (TotalKg r) total_in) c)
            in Some (real rank / real (length c) * 100))
         else None)"

section \<open>Mean and quantiles of a column\<close>

text \<open>\<^verbatim>\<open>series.mean()\<close>: nulls are skipped, and the mean of nothing is NaN.\<close>

definition mean :: "real option list \<Rightarrow> real option" where
  "mean col = (let s = dropna col
               in if s = [] then None else Some (sum_list s / real (length s)))"

text \<open>
  Linear interpolation between the order statistics of a sorted list \<open>s\<close> at the
  (fractional) position \<open>pos\<close>, as \<^verbatim>\<open>numpy.percentile\<close> does it for pandas' default
  \<^verbatim>\<open>interpolation='linear'\<close>.
\<close>

definition lerp_at :: "real list \<Rightarrow> real \<Rightarrow> real" where
  "lerp_at s pos =
     (let lo = nat \<lfloor>pos\<rfloor>;
          hi = min (lo + 1) (length s - 1);
          g = pos - real lo
      in s ! lo + (s ! hi - s ! lo) * g)"

text \<open>\<^verbatim>\<open>series.quantile(q)\<close> for \<open>0 \<le> q \<le> 1\<close>: nulls are skipped, NaN when nothing is left.\<close>

definition quantile :: "real option list \<Rightarrow> real \<Rightarrow> real option" where
  "quantile col q =
     (let s = sort (dropna col)
      in if s = [] then None else Some (lerp_at s (q * real (length s - 1))))"

section \<open>The personal comparison of app\_parquet.py\<close>

record user =
  user_sex :: string
  user_equipment :: string
  user_age_class :: string
  user_bodyweight :: real
  user_squat :: real
  user_bench :: real
  user_deadlift :: real

text \<open>
  \<^verbatim>\<open>
  comparison_data = df[
      (df['Sex'].astype(str) == str(user_sex)) &
      (df['Equipment'].astype(str) == str(user_equipment)) &
      (df['AgeClass'].astype(str) == str(user_age_class)) &
      (df['TotalKg'].notna())
  ].copy()
  \<close>
\<close>

definition comparison_data :: "row list \<Rightarrow> user \<Rightarrow> row list" where
  "comparison_data df u =
     filter (\<lambda>r. astype_str (Sex r) = user_sex u \<and>
                 astype_str (Equipment r) = user_equipment u \<and>
                 astype_str (AgeClass r) = user_age_class u \<and>
                 TotalKg r \<noteq> None) df"

text \<open>The five candidate goals, in the order of the list \<^verbatim>\<open>objectives\<close>.\<close>

datatype objective = CategoryAverage | Top50 | Top25 | Top10 | Top5

definition objectives :: "row list \<Rightarrow> (objective \<times> real option) list" where
  "objectives cohort =
     [(CategoryAverage, mean (map TotalKg cohort)),
      (Top50, quantile (map TotalKg cohort) (50 / 100)),
      (Top25, quantile (map TotalKg cohort) (75 / 100)),
      (Top10, quantile (map TotalKg cohort) (90 / 100)),
      (Top5, quantile (map TotalKg cohort) (95 / 100))]"

record allocation =
  obj_name :: objective
  obj_total :: real
  improvement_needed :: real
  squat_impr :: real
  bench_impr :: real
  deadlift_impr :: real

text \<open>
  The loop over the goals. It returns the allocation written to the page, or \<open>None\<close> when
  the loop ends with \<^verbatim>\<open>shown\<close> still False.
  \<^verbatim>\<open>
  for obj_name, obj_total in objectives:
      if obj_total > user_total:
          improvement_needed = obj_total - user_total
          total_lifts = user_squat + user_bench + user_deadlift
          if total_lifts > 0:
              squat_impr = improvement_needed * (user_squat / total_lifts)
              bench_impr = improvement_needed * (user_bench / total_lifts)
              deadlift_impr = improvement_needed * (user_deadlift / total_lifts)
              ...
              shown = True
              break
  \<close>
\<close>

fun objectives_loop ::
  "(objective \<times> real option) list \<Rightarrow> real \<Rightarrow> real \<Rightarrow> real \<Rightarrow> real \<Rightarrow> allocation option" where
  "objectives_loop [] user_total sq be dl = None"
| "objectives_loop ((name, goal_total) # rest) user_total sq be dl =
     (case goal_total of
        None \<Rightarrow> objectives_loop rest user_total sq be dl
      | Some t \<Rightarrow>
          if t > user_total then
            (let improvement = t - user_total;
                 total_lifts = sq + be + dl
             in if total_lifts > 0 then
                  Some \<lparr>obj_name = name, obj_total = t, improvement_needed = improvement,
                        squat_impr = improvement * (sq / total_lifts),
                        bench_impr = improvement * (be / total_lifts),
                        deadlift_impr = improvement * (dl / total_lifts)\<rparr>
                else objectives_loop rest user_total sq be dl)
          else objectives_loop rest user_total sq be dl)"

text \<open>
  What the goal section shows: an allocation, or, when \<^verbatim>\<open>shown\<close> is False after the
  loop, the message that the user is already above the Top 5\% goal.
\<close>

datatype goal = Suggested allocation | AlreadyAboveAllGoals

definition suggest_goal ::
  "(objective \<times> real option) list \<Rightarrow> real \<Rightarrow> real \<Rightarrow> real \<Rightarrow> real \<Rightarrow> goal" where
  "suggest_goal objs user_total sq be dl =
     (case objectives_loop objs user_total sq be dl of
        Some a \<Rightarrow> Suggested a
      | None \<Rightarrow> AlreadyAboveAllGoals)"

text \<open>
  The predictive section is gated on the body-weight column: it needs the column and more
  than 20 cohort rows with a body weight. The straight line fitted there through body
  weight and total is only drawn, and no goal depends on it. The section runs in a
  \<^verbatim>\<open>try\<close> block whose handler shows a warning; fitting a line through finite numbers
  does not raise, so the handler has no branch here.
\<close>

datatype predictive = Goal goal | FewBodyweights | NoBodyweightColumn

text \<open>The three warnings after which the script stops (\<^verbatim>\<open>st.stop()\<close>).\<close>

datatype stopped = BadInputs | MissingColumns | NotEnoughData

record analysis =
  percentile :: real
  comparable :: nat
  category_avg :: "real option"
  category_top10 :: "real option"
  prediction :: predictive

text \<open>
  The body of \<^verbatim>\<open>if analyze_button:\<close>, up to the goal section. \<open>columns\<close> are the
  column names of \<^verbatim>\<open>df\<close>.
\<close>

definition analyze :: "string list \<Rightarrow> row list \<Rightarrow> user \<Rightarrow> stopped + analysis" where
  "analyze columns df u =
     (let user_total = user_squat u + user_bench u + user_deadlift u
      in if user_bodyweight u \<le> 0 \<or> user_total \<le> 0 then Inl BadInputs
         else if \<not> (\<forall>c \<in> set [''Sex'', ''Equipment'', ''AgeClass'', ''TotalKg'']. c \<in> set columns)
           then Inl MissingColumns
         else
           (let cohort = comparison_data df u
            in if length cohort \<le> 10 then Inl NotEnoughData
               else Inr \<lparr>percentile = percentile_less_than (map (float_cell \<circ> TotalKg) cohort) user_total,
                         comparable = length cohort,
                         category_avg = mean (map TotalKg cohort),
                         category_top10 = quantile (map TotalKg cohort) (90 / 100),
                         prediction =
                           (if ''BodyweightKg'' \<in> set columns then
                              (let valid_bw = filter (\<lambda>r. BodyweightKg r \<noteq> None) cohort
                               in if length valid_bw > 20 then
                                    Goal (suggest_goal (objectives cohort) user_total
                                            (user_squat u) (user_bench u) (user_deadlift u))
                                  else FewBodyweights)
                            else NoBodyweightColumn)\<rparr>))"

section \<open>Dates\<close>

text \<open>
  \<^verbatim>\<open>datetime.toordinal\<close>: the day number in the proleptic Gregorian calendar, day 1
  being 0001-01-01. The definitions follow the standard library's \<^verbatim>\<open>_is_leap\<close>,
  \<^verbatim>\<open>_days_before_year\<close>, \<^verbatim>\<open>_days_in_month\<close>, \<^verbatim>\<open>_days_before_month\<close> and
  \<^verbatim>\<open>_ymd2ord\<close>; Python's \<^verbatim>\<open>//\<close> is HOL's \<open>div\<close> on integers.
\<close>

definition is_leap :: "int \<Rightarrow> bool" where
  "is_leap y = (y mod 4 = 0 \<and> (y mod 100 \<noteq> 0 \<or> y mod 400 = 0))"

definition days_before_year :: "int \<Rightarrow> int" where
  "days_before_year y = (y - 1) * 365 + (y - 1) div 4 - (y - 1) div 100 + (y - 1) div 400"

definition days_in_month :: "int \<Rightarrow> int \<Rightarrow> int" where
  "days_in_month y m =
     (if m = 2 \<and> is_leap y then 29
      else [31, 28, 31, 30, 31, 30, 31, 31, 30, 31, 30, 31] ! nat (m - 1))"

definition days_before_month :: "int \<Rightarrow> int \<Rightarrow> int" where
  "days_before_month y m =
     [0, 31, 59, 90, 120, 151, 181, 212, 243, 273, 304, 334] ! nat (m - 1)
       + (if m > 2 \<and> is_leap y then 1 else 0)"

fun toordinal :: "pydate \<Rightarrow> int" where
  "toordinal (PyDate y m d) = days_before_year y + days_before_month y m + d"

text \<open>
  \<^verbatim>\<open>date + pd.DateOffset(months=n)\<close>: the month moves on by \<open>n\<close>, the year by the
  carry, and the day is cut to the length of the new month.
\<close>

fun add_months :: "int \<Rightarrow> pydate \<Rightarrow> pydate" where
  "add_months n (PyDate y m d) =
     (let t = m - 1 + n;
          y' = y + t div 12;
          m' = t mod 12 + 1
      in PyDate y' m' (min d (days_in_month y' m')))"

text \<open>\<^verbatim>\<open>series.max()\<close> on a column of dates and on a column of numbers without nulls.\<close>

fun date_max :: "pydate list \<Rightarrow> pydate option" where
  "date_max [] = None"
| "date_max (a # as) = Some (fold (\<lambda>b m. if toordinal m < toordinal b then b else m) as a)"

fun col_max :: "real list \<Rightarrow> real option" where
  "col_max [] = None"
| "col_max (a # as) = Some (fold max as a)"

section \<open>Trend projection of app.py\<close>

text \<open>
  \<^verbatim>\<open>numpy.polyfit(x, y, 1)\<close>, as (slope, intercept): the least-squares line in closed
  form. When all \<open>x\<close> are equal the line is not determined; numpy then solves its
  column-scaled system by the solution of least norm (and warns), which for equal positive
  \<open>x\<close> is the second branch.
\<close>

definition polyfit1 :: "real list \<Rightarrow> real list \<Rightarrow> real \<times> real" where
  "polyfit1 x y =
     (let n = real (length x);
          sx = sum_list x;
          sy = sum_list y;
          sxx = sum_list (map (\<lambda>a. a * a) x);
          sxy = sum_list (map2 (*) x y);
          den = n * sxx - sx * sx
      in if den \<noteq> 0 then
           (let slope = (n * sxy - sx * sy) / den in (slope, (sy - slope * sx) / n))
         else (sy / (2 * sx), sy / (2 * n)))"

text \<open>\<^verbatim>\<open>me[["Date", col]].dropna()\<close>: the rows where both cells are present.\<close>

fun dropna2 :: "('a option \<times> 'b option) list \<Rightarrow> ('a \<times> 'b) list" where
  "dropna2 [] = []"
| "dropna2 ((Some a, Some b) # rest) = (a, b) # dropna2 rest"
| "dropna2 (_ # rest) = dropna2 rest"

text \<open>
  The lines both projections share; \<open>latest\<close> is \<^verbatim>\<open>d["Date"].max()\<close>. The result is
  \<^verbatim>\<open>(fut, y_fut)\<close>.
  \<^verbatim>\<open>
  x = d["Date"].map(datetime.toordinal)
  y = d[col].astype(float)
  coef = np.polyfit(x, y, 1)
  fut = d["Date"].max() + pd.DateOffset(months=6)
  y_fut = coef[0]*fut.toordinal() + coef[1]
  \<close>
\<close>

definition extrapolate :: "(pydate \<times> real) list \<Rightarrow> pydate \<Rightarrow> pydate \<times> real" where
  "extrapolate d latest =
     (let x = map (\<lambda>(dt, v). real_of_int (toordinal dt)) d;
          y = map snd d;
          coef = polyfit1 x y;
          fut = add_months 6 latest
      in (fut, fst coef * real_of_int (toordinal fut) + snd coef))"

text \<open>
  One pass of the loop that builds the table "Proyecci\'on de Rendimiento a 6 meses", on
  the two columns \<^verbatim>\<open>me[["Date", col]]\<close>. The result is the pair
  (\<^verbatim>\<open>PR actual\<close>, \<^verbatim>\<open>Proyecci\'on 6m\<close>) appended to \<^verbatim>\<open>proj\<close>, or \<open>None\<close> when nothing
  is appended.
  \<^verbatim>\<open>
  d = me[["Date",col]].dropna()
  if len(d) >= 3:
      ...
      proj.append([lift, d[col].max(), max(y_fut, d[col].max())])
  \<close>
\<close>

definition projection_row :: "(pydate option \<times> real option) list \<Rightarrow> (real \<times> real) option" where
  "projection_row obs =
     (let d = dropna2 obs
      in if length d \<ge> 3 then
           (case (date_max (map fst d), col_max (map snd d)) of
              (Some latest, Some best) \<Rightarrow>
                (let y_fut = snd (extrapolate d latest) in Some (best, max y_fut best))
            | _ \<Rightarrow> None)
         else None)"

datatype lift = Squat | Bench | Deadlift | Total

text \<open>The list the loop runs over, and the table \<^verbatim>\<open>proj\<close> it builds.\<close>

definition lift_columns :: "(lift \<times> (row \<Rightarrow> real option)) list" where
  "lift_columns =
     [(Squat, Best3SquatKg), (Bench, Best3BenchKg), (Deadlift, Best3DeadliftKg),
      (Total, TotalKg)]"

definition six_month_projection :: "row list \<Rightarrow> (lift \<times> real \<times> real) list" where
  "six_month_projection me =
     List.map_filter
       (\<lambda>(lift, col). map_option (\<lambda>(pr, p). (lift, pr, p))
                        (projection_row (map (\<lambda>r. (Date r, col r)) me)))
       lift_columns"

text \<open>
  The dashed trace "Proyecci\'on 6m" that \<^verbatim>\<open>plot_with_projection\<close> adds to the chart of
  one lift, or \<open>None\<close> when it adds none.
  \<^verbatim>\<open>
  d = me[["Date", col]].dropna()
  if len(d) >= 3:
      ...
      fig.add_scatter(
          x=[d["Date"].max().year, fut.year],
          y=[d[col].iloc[-1], y_fut], ...)
  \<close>
\<close>

record trace =
  from_year :: int
  to_year :: int
  from_value :: real
  to_value :: real

definition projection_trace :: "(pydate option \<times> real option) list \<Rightarrow> trace option" where
  "projection_trace obs =
     (let d = dropna2 obs
      in if length d \<ge> 3 then
           (case date_max (map fst d) of
              Some latest \<Rightarrow>
                (let (fut, y_fut) = extrapolate d latest
                 in Some \<lparr>from_year = dyear latest, to_year = dyear fut,
                          from_value = snd (last d), to_value = y_fut\<rparr>)
            | None \<Rightarrow> None)
         else None)"

definition plot_with_projection :: "row list \<Rightarrow> (row \<Rightarrow> real option) \<Rightarrow> trace option" where
  "plot_with_projection me col = projection_trace (map (\<lambda>r. (Date r, col r)) me)"

section \<open>The sidebar filters\<close>

text \<open>
  The values of the filter widgets. The names are the keys of \<^verbatim>\<open>filters\<close> in
  \<^verbatim>\<open>app_parquet.py\<close>; in \<^verbatim>\<open>app.py\<close> they are the variables \<^verbatim>\<open>sex_filter\<close>,
  \<^verbatim>\<open>equip_filter\<close>, \<^verbatim>\<open>country_filter\<close>, \<^verbatim>\<open>age_filter\<close>, \<^verbatim>\<open>year_range\<close> and
  \<^verbatim>\<open>total_range\<close>. A selection of \<^verbatim>\<open>'Todos'\<close> means no constraint.
\<close>

record filters =
  sex :: string
  equipment :: string
  country :: string
  age_class :: string
  year_range :: "int \<times> int"
  total_range :: "real \<times> real"

text \<open>
  \<^verbatim>\<open>app.py\<close>:
  \<^verbatim>\<open>
  filtered = df.copy()
  if sex_filter != "Todos":
      filtered = filtered[filtered["Sex"] == sex_filter]
  if equip_filter != "Todos":
      filtered = filtered[filtered["Equipment"] == equip_filter]
  if country_filter != "Todos":
      filtered = filtered[filtered["Country"] == country_filter]
  if age_filter != "Todos":
      filtered = filtered[filtered["AgeClass"] == age_filter]
  filtered = filtered[
      (filtered["Year"] >= year_range[0]) & (filtered["Year"] <= year_range[1]) &
      (filtered["TotalKg"] >= total_range[0]) & (filtered["TotalKg"] <= total_range[1])]
  \<close>
\<close>

definition filtered :: "filters \<Rightarrow> row list \<Rightarrow> row list" where
  "filtered c df =
     (let f = df;
          f = (if sex c \<noteq> ''Todos'' then filter (\<lambda>r. eq_obj (Sex r) (sex c)) f else f);
          f = (if equipment c \<noteq> ''Todos''
               then filter (\<lambda>r. eq_obj (Equipment r) (equipment c)) f else f);
          f = (if country c \<noteq> ''Todos''
               then filter (\<lambda>r. eq_obj (Country r) (country c)) f else f);
          f = (if age_class c \<noteq> ''Todos''
               then filter (\<lambda>r. eq_obj (AgeClass r) (age_class c)) f else f)
      in filter (\<lambda>r. ge_cell (Year r) (fst (year_range c)) \<and>
                     le_cell (Year r) (snd (year_range c)) \<and>
                     ge_cell (TotalKg r) (fst (total_range c)) \<and>
                     le_cell (TotalKg r) (snd (total_range c))) f)"

text \<open>
  \<^verbatim>\<open>app_parquet.py\<close>, where each step is also guarded by the presence of its column and
  text is compared after \<^verbatim>\<open>astype(str)\<close>:
  \<^verbatim>\<open>
  filtered_df = df.copy()
  if 'Sex' in filtered_df.columns and filters['sex'] != 'Todos':
      filtered_df = filtered_df[filtered_df['Sex'].astype(str) == str(filters['sex'])]
  ... (Equipment, Country, AgeClass likewise)
  if 'Year' in filtered_df.columns:
      filtered_df = filtered_df[(filtered_df['Year'] >= filters['year_range'][0]) &
                                (filtered_df['Year'] <= filters['year_range'][1])]
  if 'TotalKg' in filtered_df.columns:
      filtered_df = filtered_df[(filtered_df['TotalKg'] >= filters['total_range'][0]) &
                                (filtered_df['TotalKg'] <= filters['total_range'][1])]
  \<close>
\<close>

definition filtered_df :: "string list \<Rightarrow> filters \<Rightarrow> row list \<Rightarrow> row list" where
  "filtered_df columns c df =
     (let f = df;
          f = (if ''Sex'' \<in> set columns \<and> sex c \<noteq> ''Todos''
               then filter (\<lambda>r. astype_str (Sex r) = sex c) f else f);
          f = (if ''Equipment'' \<in> set columns \<and> equipment c \<noteq> ''Todos''
               then filter (\<lambda>r. astype_str (Equipment r) = equipment c) f else f);
          f = (if ''Country'' \<in> set columns \<and> country c \<noteq> ''Todos''
               then filter (\<lambda>r. astype_str (Country r) = country c) f else f);
          f = (if ''AgeClass'' \<in> set columns \<and> age_class c \<noteq> ''Todos''
               then filter (\<lambda>r. astype_str (AgeClass r) = age_class c) f else f);
          f = (if ''Year'' \<in> set columns
               then filter (\<lambda>r. ge_cell (Year r) (fst (year_range c)) \<and>
                               le_cell (Year r) (snd (year_range c))) f else f);
          f = (if ''TotalKg'' \<in> set columns
               then filter (\<lambda>r. ge_cell (TotalKg r) (fst (total_range c)) \<and>
                               le_cell (TotalKg r) (snd (total_range c))) f else f)
      in f)"

section \<open>Example data\<close>

text \<open>A result row with a given sex and total, and a user of the comparison form.\<close>

definition athlete :: "string \<Rightarrow> real \<Rightarrow> row" where
  "athlete s t = \<lparr>NameNormalized = Str ''a'', Sex = Str s, Equipment = Str ''Raw'',
     Country = Str ''USA'', AgeClass = Str ''24-34'', Year = Some 2020, Date = None,
     BodyweightKg = Some 80, Best3SquatKg = None, Best3BenchKg = None,
     Best3DeadliftKg = None, TotalKg = Some t\<rparr>"

text \<open>A meet of one athlete, with a date and a squat only.\<close>

definition meet :: "pydate \<Rightarrow> real \<Rightarrow> row" where
  "meet dt sq = \<lparr>NameNormalized = Str ''a'', Sex = Str ''M'', Equipment = Str ''Raw'',
     Country = Str ''USA'', AgeClass = Str ''24-34'', Year = Some (dyear dt), Date = Some dt,
     BodyweightKg = Some 80, Best3SquatKg = Some sq, Best3BenchKg = None,
     Best3DeadliftKg = None, TotalKg = None\<rparr>"

text \<open>An athlete whose squat goes down over three meets, and one whose squat goes up.\<close>

definition declining :: "row list" where
  "declining = [meet (PyDate 2020 1 1) 110, meet (PyDate 2020 1 31) 105,
                meet (PyDate 2020 3 1) 100]"

definition rising :: "row list" where
  "rising = [meet (PyDate 2020 1 1) 100, meet (PyDate 2020 1 31) 105,
             meet (PyDate 2020 3 1) 110]"

definition lifter :: user where
  "lifter = \<lparr>user_sex = ''M'', user_equipment = ''Raw'', user_age_class = ''24-34'',
     user_bodyweight = 80, user_squat = 30, user_bench = 25, user_deadlift = 40\<rparr>"

definition must_cols :: "string list" where
  "must_cols = [''Sex'', ''Equipment'', ''AgeClass'', ''TotalKg'']"

definition ten_athletes :: "row list" where
  "ten_athletes = map (athlete ''M'') [80, 90, 100, 110, 120, 130, 140, 150, 160, 170]"


definition five_athletes :: "row list" where
  "five_athletes = map (athlete ''M'') [120, 80, 110, 90, 100]"


text \<open>Rows and widget values for the filters.\<close>

definition entry :: "string \<Rightarrow> obj \<Rightarrow> int \<Rightarrow> real option \<Rightarrow> row" where
  "entry s c y t = \<lparr>NameNormalized = Str ''a'', Sex = Str s, Equipment = Str ''Raw'',
     Country = c, AgeClass = Str ''24-34'', Year = Some y, Date = None,
     BodyweightKg = Some 80, Best3SquatKg = None, Best3BenchKg = None,
     Best3DeadliftKg = None, TotalKg = t\<rparr>"

text \<open>Three results of the years 2019 to 2021, the last one without a total.\<close>

definition with_null_total :: "row list" where
  "with_null_total =
     [entry ''M'' (Str ''USA'') 2019 (Some 100), entry ''M'' (Str ''USA'') 2021 (Some 120),
      entry ''M'' (Str ''USA'') 2020 None]"

text \<open>
  Three results of the years 2009 to 2021 with a year and a total each; the country of the
  first is the text \<^verbatim>\<open>None\<close>, the country of the second is null.
\<close>

definition with_null_country :: "row list" where
  "with_null_country =
     [entry ''M'' (Str ''None'') 2009 (Some 100), entry ''F'' PyNone 2021 (Some 120),
      entry ''M'' (Str ''USA'') 2020 (Some 110)]"

text \<open>Every selection at \<^verbatim>\<open>'Todos'\<close>, with the two sliders at the given ends.\<close>

definition todos :: "int \<times> int \<Rightarrow> real \<times> real \<Rightarrow> filters" where
  "todos years totals =
     \<lparr>sex = ''Todos'', equipment = ''Todos'', country = ''Todos'', age_class = ''Todos'',
      year_range = years, total_range = totals\<rparr>"

definition all_columns :: "string list" where
  "all_columns = [''NameNormalized'', ''Sex'', ''Equipment'', ''Country'', ''AgeClass'', ''Year'',
                  ''Date'', ''BodyweightKg'', ''Best3SquatKg'', ''Best3BenchKg'',
                  ''Best3DeadliftKg'', ''TotalKg'']"

section \<open>Properties of the percentile\<close>

lemma length_dropna: "length (dropna xs) = length (filter (\<lambda>c. c \<noteq> None) xs)"
  by (induction xs rule: dropna.induct) auto

lemma coerce_float_cell: "to_numeric_coerce (float_cell c) = c"
  by (cases c) auto

lemma dropna_float_column:
  "dropna (map to_numeric_coerce (map (float_cell \<circ> f) rs)) = dropna (map f rs)"
  by (simp add: coerce_float_cell comp_def)

lemma percentile_float_column:
  "percentile_less_than (map (float_cell \<circ> f) rs) v =
     (let s = dropna (map f rs)
      in if length s = 0 then 0
         else real (length (filter (\<lambda>x. x < v) s)) / real (length s) * 100)"
  unfolding percentile_less_than_def dropna_float_column ..

lemma lt_cell_case: "lt_cell c v = (case c of Some x \<Rightarrow> x < v | None \<Rightarrow> False)"
  by (cases c) auto

lemma dropna_all_present:
  "\<forall>r \<in> set rs. f r \<noteq> None \<Longrightarrow> length (dropna (map f rs)) = length rs"
  by (induction rs) auto

lemma count_below_column:
  "length (filter (\<lambda>x. x < v) (dropna (map f rs))) = length (filter (\<lambda>r. lt_cell (f r) v) rs)"
  by (induction rs) (auto simp: lt_cell_case split: option.splits)

lemma percentile_of_complete_column:
  assumes "rs \<noteq> []" and "\<forall>r \<in> set rs. f r \<noteq> None"
  shows "percentile_less_than (map (float_cell \<circ> f) rs) v =
         real (length (filter (\<lambda>r. lt_cell (f r) v) rs)) / real (length rs) * 100"
proof -
  have len: "length (dropna (map f rs)) = length rs"
    using assms(2) by (rule dropna_all_present)
  with assms(1) have ne: "dropna (map f rs) \<noteq> []"
    by auto
  show ?thesis
    by (simp add: percentile_float_column Let_def ne len count_below_column)
qed

lemma comparison_data_total: "r \<in> set (comparison_data df u) \<Longrightarrow> TotalKg r \<noteq> None"
  by (simp add: comparison_data_def)

lemma comp_df_total: "r \<in> set (comp_df df s bw) \<Longrightarrow> TotalKg r \<noteq> None"
  by (simp add: comp_df_def)

text \<open>
  Claim C2. For a non-empty cohort and any user value \<open>v\<close>, the percentile is the number
  of cohort rows whose total is strictly less than \<open>v\<close>, divided by the size of the cohort,
  times 100. A row whose total equals \<open>v\<close> is not counted in the numerator
  (\<open>lt_cell\<close> is strict) and stays in the denominator. This holds for the cohort of
  \<^verbatim>\<open>app_parquet.py\<close> ranked by \<^verbatim>\<open>_percentile_less_than\<close> and for the cohort of
  \<^verbatim>\<open>app.py\<close>; both cohorts hold only rows with a total.
\<close>

theorem percentile_rank_strictly_less:
  "(comparison_data df u \<noteq> [] \<longrightarrow>
      percentile_less_than (map (float_cell \<circ> TotalKg) (comparison_data df u)) v =
      real (length (filter (\<lambda>r. lt_cell (TotalKg r) v) (comparison_data df u)))
        / real (length (comparison_data df u)) * 100) \<and>
   (comp_df df sex_in bw_in \<noteq> [] \<longrightarrow>
      simulador_percentil df sex_in bw_in v =
      Some (real (length (filter (\<lambda>r. lt_cell (TotalKg r) v) (comp_df df sex_in bw_in)))
        / real (length (comp_df df sex_in bw_in)) * 100))"
proof (intro conjI impI)
  assume "comparison_data df u \<noteq> []"
  then show "percentile_less_than (map (float_cell \<circ> TotalKg) (comparison_data df u)) v =
      real (length (filter (\<lambda>r. lt_cell (TotalKg r) v) (comparison_data df u)))
        / real (length (comparison_data df u)) * 100"
    by (rule percentile_of_complete_column) (simp add: comparison_data_total)
next
  assume "comp_df df sex_in bw_in \<noteq> []"
  then show "simulador_percentil df sex_in bw_in v =
      Some (real (length (filter (\<lambda>r. lt_cell (TotalKg r) v) (comp_df df sex_in bw_in)))
        / real (length (comp_df df sex_in bw_in)) * 100)"
    by (simp add: simulador_percentil_def Let_def)
qed

text \<open>
  The spec's scenario: totals 80, 90, 100, 110, 120 and a user total of 95 give the
  percentile 40 in both dashboards.
\<close>

theorem percentile_rank_strictly_less_witness:
  "comparison_data (map (athlete ''M'') [80, 90, 100, 110, 120]) lifter \<noteq> [] \<and>
   percentile_less_than (map (float_cell \<circ> TotalKg)
      (comparison_data (map (athlete ''M'') [80, 90, 100, 110, 120]) lifter)) 95 = 40 \<and>
   comp_df (map (athlete ''M'') [80, 90, 100, 110, 120]) ''M'' 80 \<noteq> [] \<and>
   simulador_percentil (map (athlete ''M'') [80, 90, 100, 110, 120]) ''M'' 80 95 = Some 40"
  using percentile_rank_strictly_less
    [of "map (athlete ''M'') [80, 90, 100, 110, 120]" lifter 95 "''M''" 80]
  by (simp add: comparison_data_def comp_df_def athlete_def lifter_def between_def)


lemma valid_count:
  "length (dropna (map to_numeric_coerce series)) =
   length (filter (\<lambda>c. c \<noteq> Nan \<and> c \<noteq> NonNumeric) series)"
proof (induction series)
  case Nil
  then show ?case by simp
next
  case (Cons c cs)
  then show ?case by (cases c) simp_all
qed

lemma below_count:
  "length (filter (\<lambda>x. x < v) (dropna (map to_numeric_coerce series))) =
   length (filter (\<lambda>c. case c of Num x \<Rightarrow> x < v | _ \<Rightarrow> False) series)"
proof (induction series)
  case Nil
  then show ?case by simp
next
  case (Cons c cs)
  then show ?case by (cases c) simp_all
qed

lemma dropna_append: "dropna (xs @ ys) = dropna xs @ dropna ys"
  by (induction xs rule: dropna.induct) simp_all

lemma percentile_skip_invalid:
  "to_numeric_coerce c = None \<Longrightarrow>
   percentile_less_than (xs @ c # ys) v = percentile_less_than (xs @ ys) v"
  by (simp add: percentile_less_than_def dropna_append)

text \<open>
  Claim C10. \<^verbatim>\<open>_percentile_less_than\<close> coerces the series to numbers and drops what is
  not a number before it counts: the denominator is the number of valid entries, the
  numerator the number of valid entries below the value, and a NaN or non-numeric entry
  anywhere in the series changes neither.
\<close>

theorem percentile_ignores_invalid:
  "percentile_less_than series v =
     (if filter (\<lambda>c. c \<noteq> Nan \<and> c \<noteq> NonNumeric) series = [] then 0
      else real (length (filter (\<lambda>c. case c of Num x \<Rightarrow> x < v | _ \<Rightarrow> False) series))
           / real (length (filter (\<lambda>c. c \<noteq> Nan \<and> c \<noteq> NonNumeric) series)) * 100) \<and>
   (c = Nan \<or> c = NonNumeric \<longrightarrow>
      percentile_less_than (xs @ c # ys) v = percentile_less_than (xs @ ys) v)"
proof
  have "(dropna (map to_numeric_coerce series) = []) =
        (filter (\<lambda>c. c \<noteq> Nan \<and> c \<noteq> NonNumeric) series = [])"
    using valid_count [of series] by (metis length_0_conv)
  then show "percentile_less_than series v =
     (if filter (\<lambda>c. c \<noteq> Nan \<and> c \<noteq> NonNumeric) series = [] then 0
      else real (length (filter (\<lambda>c. case c of Num x \<Rightarrow> x < v | _ \<Rightarrow> False) series))
           / real (length (filter (\<lambda>c. c \<noteq> Nan \<and> c \<noteq> NonNumeric) series)) * 100)"
    by (simp add: percentile_less_than_def Let_def valid_count below_count)
next
  show "c = Nan \<or> c = NonNumeric \<longrightarrow>
      percentile_less_than (xs @ c # ys) v = percentile_less_than (xs @ ys) v"
    by (auto intro: percentile_skip_invalid)
qed

theorem percentile_ignores_invalid_witness:
  "percentile_less_than [Num 80, Nan, Num 90, NonNumeric, Num 100, Num 110] 95 = 50 \<and>
   percentile_less_than ([Num 80] @ Nan # [Num 90, Num 100, Num 110]) 95 =
   percentile_less_than ([Num 80] @ [Num 90, Num 100, Num 110]) 95"
  using percentile_ignores_invalid
      [where series = "[Num 80, Nan, Num 90, NonNumeric, Num 100, Num 110]" and v = 95
         and c = Nan and xs = "[Num 80]" and ys = "[Num 90, Num 100, Num 110]"]
  by simp

section \<open>The empty cohort and the size guard\<close>

text \<open>
  On an empty series \<^verbatim>\<open>_percentile_less_than\<close> takes its \<^verbatim>\<open>len(s) == 0\<close> branch and
  returns the number 0.0: it raises nothing and returns no marker of missing data.
\<close>

theorem empty_cohort_counterexample: "percentile_less_than [] 100 = 0"
  by (simp add: percentile_less_than_def)

lemma analyze_small_cohort:
  "length (comparison_data df u) \<le> 10 \<Longrightarrow> \<exists>w. analyze columns df u = Inl w"
  by (simp add: analyze_def Let_def)

text \<open>
  Claim C4, as amended. For a cohort of size 0 neither dashboard shows a percentile:
  the comparison of \<^verbatim>\<open>app.py\<close> takes its warning branch, and the comparison of
  \<^verbatim>\<open>app_parquet.py\<close> stops with a warning before the helper is called. The helper
  \<^verbatim>\<open>_percentile_less_than\<close> itself returns 0.0 for an empty series and for a series with
  no valid number.
\<close>

theorem empty_cohort_no_percentile_shown:
  "percentile_less_than [] v = 0 \<and>
   (to_numeric_coerce ` set series \<subseteq> {None} \<longrightarrow> percentile_less_than series v = 0) \<and>
   (comp_df df sex_in bw_in = [] \<longrightarrow> simulador_percentil df sex_in bw_in v = None) \<and>
   (comparison_data df u = [] \<longrightarrow> (\<exists>w. analyze columns df u = Inl w))"
proof (intro conjI impI)
  show "percentile_less_than [] v = 0"
    by (simp add: percentile_less_than_def)
next
  assume "to_numeric_coerce ` set series \<subseteq> {None}"
  then have "dropna (map to_numeric_coerce series) = []"
    by (induction series) auto
  then show "percentile_less_than series v = 0"
    by (simp add: percentile_less_than_def)
next
  assume "comp_df df sex_in bw_in = []"
  then show "simulador_percentil df sex_in bw_in v = None"
    by (simp add: simulador_percentil_def)
next
  assume "comparison_data df u = []"
  then show "\<exists>w. analyze columns df u = Inl w"
    by (simp add: analyze_small_cohort)
qed

theorem empty_cohort_no_percentile_shown_witness:
  "percentile_less_than [Nan, NonNumeric] 100 = 0 \<and>
   simulador_percentil [] ''M'' 80 100 = None \<and>
   analyze [''Sex'', ''Equipment'', ''AgeClass'', ''TotalKg''] [] lifter = Inl NotEnoughData"
  using empty_cohort_no_percentile_shown [of 100 "[Nan, NonNumeric]" "[]" "''M''" 80 lifter
      "[''Sex'', ''Equipment'', ''AgeClass'', ''TotalKg'']"]
  by (simp add: comp_df_def comparison_data_def analyze_def lifter_def)

text \<open>
  Claim C9. The comparison of \<^verbatim>\<open>app_parquet.py\<close> goes on to the percentile only when
  the cohort (rows of the user's sex, equipment and age class with a total) has more than
  10 rows. With 10 rows or fewer the script stops with a warning, so no percentile,
  quantile or allocation is produced; when the input guards pass, the warning is the one
  of the size guard, and with more than 10 rows the analysis is produced.
\<close>

theorem comparison_needs_more_than_ten:
  "(length (comparison_data df u) \<le> 10 \<longrightarrow> (\<exists>w. analyze columns df u = Inl w)) \<and>
   (0 < user_bodyweight u \<and> 0 < user_squat u + user_bench u + user_deadlift u \<and>
    set [''Sex'', ''Equipment'', ''AgeClass'', ''TotalKg''] \<subseteq> set columns \<longrightarrow>
      (if length (comparison_data df u) \<le> 10 then analyze columns df u = Inl NotEnoughData
       else \<exists>a. analyze columns df u = Inr a \<and> comparable a = length (comparison_data df u) \<and>
              percentile a = percentile_less_than (map (float_cell \<circ> TotalKg) (comparison_data df u))
                 (user_squat u + user_bench u + user_deadlift u)))"
  by (auto simp: analyze_def Let_def)

theorem comparison_needs_more_than_ten_witness:
  "length (comparison_data ten_athletes lifter) = 10 \<and>
   analyze must_cols ten_athletes lifter = Inl NotEnoughData \<and>
   length (comparison_data (athlete ''M'' 180 # ten_athletes) lifter) = 11 \<and>
   (\<exists>a. analyze must_cols (athlete ''M'' 180 # ten_athletes) lifter = Inr a \<and> comparable a = 11)"
proof -
  have guards: "0 < user_bodyweight lifter \<and>
      0 < user_squat lifter + user_bench lifter + user_deadlift lifter \<and>
      set [''Sex'', ''Equipment'', ''AgeClass'', ''TotalKg''] \<subseteq> set must_cols"
    by (simp add: lifter_def must_cols_def)
  have ten: "length (comparison_data ten_athletes lifter) = 10"
    by (simp add: comparison_data_def ten_athletes_def athlete_def lifter_def)
  have eleven: "length (comparison_data (athlete ''M'' 180 # ten_athletes) lifter) = 11"
    by (simp add: comparison_data_def ten_athletes_def athlete_def lifter_def)
  have "analyze must_cols ten_athletes lifter = Inl NotEnoughData"
    using comparison_needs_more_than_ten [of ten_athletes lifter must_cols] guards ten
    by simp
  moreover have "\<exists>a. analyze must_cols (athlete ''M'' 180 # ten_athletes) lifter = Inr a \<and>
      comparable a = 11"
    using comparison_needs_more_than_ten [of "athlete ''M'' 180 # ten_athletes" lifter must_cols]
      guards eleven
    by auto
  ultimately show ?thesis
    using ten eleven by simp
qed


section \<open>Goals and the proportional allocation\<close>

lemma shares_sum:
  fixes sq be dl d :: real
  assumes "0 < sq + be + dl"
  shows "d * (sq / (sq + be + dl)) + d * (be / (sq + be + dl)) + d * (dl / (sq + be + dl)) = d"
proof -
  from assms have nz: "sq + be + dl \<noteq> 0"
    by simp
  have "d * (sq / (sq + be + dl)) + d * (be / (sq + be + dl)) + d * (dl / (sq + be + dl))
        = d * ((sq + be + dl) / (sq + be + dl))"
    by (simp only: add_divide_distrib distrib_left)
  also have "\<dots> = d"
    using nz by simp
  finally show ?thesis .
qed

lemma objectives_loop_sum:
  "objectives_loop objs ut sq be dl = Some a \<Longrightarrow>
   ut < obj_total a \<and> improvement_needed a = obj_total a - ut \<and>
   squat_impr a + bench_impr a + deadlift_impr a = obj_total a - ut"
proof (induction objs)
  case Nil
  then show ?case by simp
next
  case (Cons p objs)
  obtain name goal_total where p: "p = (name, goal_total)"
    by (cases p)
  show ?case
  proof (cases goal_total)
    case None
    with Cons p show ?thesis by simp
  next
    case (Some t)
    show ?thesis
    proof (cases "ut < t \<and> 0 < sq + be + dl")
      case True
      with Cons.prems p Some have a: "a = \<lparr>obj_name = name, obj_total = t, improvement_needed = t - ut,
                        squat_impr = (t - ut) * (sq / (sq + be + dl)),
                        bench_impr = (t - ut) * (be / (sq + be + dl)),
                        deadlift_impr = (t - ut) * (dl / (sq + be + dl))\<rparr>"
        by (simp add: Let_def)
      from True have "0 < sq + be + dl" by simp
      from shares_sum [OF this, of "t - ut"] True show ?thesis
        by (simp add: a)
    next
      case False
      with Cons.prems p Some have "objectives_loop objs ut sq be dl = Some a"
        by (auto simp: Let_def split: if_splits)
      then show ?thesis by (rule Cons.IH)
    qed
  qed
qed

text \<open>
  Claim C6. For a target strictly above a positive current total (the sum of the three
  lifts), the loop allocates toward that target: each delta is the needed improvement
  times the lift's share of the total, and the three deltas add up to exactly
  \<open>target - current_total\<close> (in exact arithmetic). The same sum holds for every
  allocation the loop returns, whatever the list of goals.
\<close>

theorem allocation_sums_to_improvement:
  "(0 < sq + be + dl \<and> sq + be + dl < target \<longrightarrow>
      (\<exists>a. objectives_loop ((name, Some target) # rest) (sq + be + dl) sq be dl = Some a \<and>
           squat_impr a = (target - (sq + be + dl)) * (sq / (sq + be + dl)) \<and>
           bench_impr a = (target - (sq + be + dl)) * (be / (sq + be + dl)) \<and>
           deadlift_impr a = (target - (sq + be + dl)) * (dl / (sq + be + dl)) \<and>
           squat_impr a + bench_impr a + deadlift_impr a = target - (sq + be + dl))) \<and>
   (objectives_loop objs ut sq be dl = Some a \<longrightarrow>
      squat_impr a + bench_impr a + deadlift_impr a = obj_total a - ut)"
proof (intro conjI impI)
  assume h: "0 < sq + be + dl \<and> sq + be + dl < target"
  let ?a = "\<lparr>obj_name = name, obj_total = target, improvement_needed = target - (sq + be + dl),
             squat_impr = (target - (sq + be + dl)) * (sq / (sq + be + dl)),
             bench_impr = (target - (sq + be + dl)) * (be / (sq + be + dl)),
             deadlift_impr = (target - (sq + be + dl)) * (dl / (sq + be + dl))\<rparr>"
  from h have run: "objectives_loop ((name, Some target) # rest) (sq + be + dl) sq be dl = Some ?a"
    by (simp add: Let_def)
  from h have "0 < sq + be + dl" by simp
  from shares_sum [OF this, of "target - (sq + be + dl)"]
  have "squat_impr ?a + bench_impr ?a + deadlift_impr ?a = target - (sq + be + dl)"
    by simp
  with run show "\<exists>a. objectives_loop ((name, Some target) # rest) (sq + be + dl) sq be dl = Some a \<and>
           squat_impr a = (target - (sq + be + dl)) * (sq / (sq + be + dl)) \<and>
           bench_impr a = (target - (sq + be + dl)) * (be / (sq + be + dl)) \<and>
           deadlift_impr a = (target - (sq + be + dl)) * (dl / (sq + be + dl)) \<and>
           squat_impr a + bench_impr a + deadlift_impr a = target - (sq + be + dl)"
    by (intro exI [of _ ?a]) simp
next
  assume "objectives_loop objs ut sq be dl = Some a"
  then show "squat_impr a + bench_impr a + deadlift_impr a = obj_total a - ut"
    by (simp add: objectives_loop_sum)
qed

text \<open>The spec's scenario: total 400 = 150 + 100 + 150 and target 440.\<close>

theorem allocation_sums_to_improvement_witness:
  "objectives_loop [(Top10, Some 440)] 400 150 100 150 =
     Some \<lparr>obj_name = Top10, obj_total = 440, improvement_needed = 40,
           squat_impr = 15, bench_impr = 10, deadlift_impr = 15\<rparr> \<and>
   (15::real) + 10 + 15 = 440 - 400"
proof -
  have run: "objectives_loop [(Top10, Some 440)] 400 150 100 150 =
     Some \<lparr>obj_name = Top10, obj_total = 440, improvement_needed = 40,
           squat_impr = 15, bench_impr = 10, deadlift_impr = 15\<rparr>"
    by (simp add: Let_def)
  from allocation_sums_to_improvement
    [where objs = "[(Top10, Some 440)]" and ut = 400 and sq = 150 and be = 100 and dl = 150
       and a = "\<lparr>obj_name = Top10, obj_total = 440, improvement_needed = 40,
           squat_impr = 15, bench_impr = 10, deadlift_impr = 15\<rparr>"] run
  show ?thesis by simp
qed

lemma loop_none:
  "\<forall>(n, t) \<in> set objs. \<not> gt_cell t ut \<Longrightarrow> objectives_loop objs ut sq be dl = None"
proof (induction objs)
  case Nil
  then show ?case by simp
next
  case (Cons p objs)
  obtain n t where p: "p = (n, t)" by (cases p)
  with Cons show ?case by (cases t) auto
qed

lemma loop_skips_prefix:
  "\<forall>(n, t) \<in> set pre. \<not> gt_cell t ut \<Longrightarrow>
   objectives_loop (pre @ objs) ut sq be dl = objectives_loop objs ut sq be dl"
proof (induction pre)
  case Nil
  then show ?case by simp
next
  case (Cons p pre)
  obtain n t where p: "p = (n, t)" by (cases p)
  with Cons show ?case by (cases t) auto
qed

text \<open>
  Claim C7. The goals are tried in the fixed order category average, 50th, 75th, 90th,
  95th percentile threshold. With a positive sum of lifts, the allocation goes to the
  first goal whose value is strictly above the user's total (every goal before it is
  skipped); when no goal is above it, the outcome is \<open>AlreadyAboveAllGoals\<close> and no
  allocation is produced. In the script the goal section is called on exactly this list,
  with the user's total, which its input guard has checked to be positive.
\<close>

theorem goal_selection_first_exceeding:
  "objectives cohort =
     [(CategoryAverage, mean (map TotalKg cohort)),
      (Top50, quantile (map TotalKg cohort) (50 / 100)),
      (Top25, quantile (map TotalKg cohort) (75 / 100)),
      (Top10, quantile (map TotalKg cohort) (90 / 100)),
      (Top5, quantile (map TotalKg cohort) (95 / 100))] \<and>
   ((\<forall>(n, t) \<in> set objs. \<not> gt_cell t ut) \<longrightarrow>
      suggest_goal objs ut sq be dl = AlreadyAboveAllGoals) \<and>
   (0 < sq + be + dl \<and> (\<forall>(m, s) \<in> set pre. \<not> gt_cell s ut) \<and> ut < t \<longrightarrow>
      suggest_goal (pre @ (n, Some t) # post) ut sq be dl =
        Suggested \<lparr>obj_name = n, obj_total = t, improvement_needed = t - ut,
                   squat_impr = (t - ut) * (sq / (sq + be + dl)),
                   bench_impr = (t - ut) * (be / (sq + be + dl)),
                   deadlift_impr = (t - ut) * (dl / (sq + be + dl))\<rparr>) \<and>
   (analyze columns df u = Inr r \<and> prediction r = Goal g \<longrightarrow>
      0 < user_squat u + user_bench u + user_deadlift u \<and>
      g = suggest_goal (objectives (comparison_data df u))
            (user_squat u + user_bench u + user_deadlift u)
            (user_squat u) (user_bench u) (user_deadlift u))"
proof (intro conjI impI)
  show "objectives cohort =
     [(CategoryAverage, mean (map TotalKg cohort)),
      (Top50, quantile (map TotalKg cohort) (50 / 100)),
      (Top25, quantile (map TotalKg cohort) (75 / 100)),
      (Top10, quantile (map TotalKg cohort) (90 / 100)),
      (Top5, quantile (map TotalKg cohort) (95 / 100))]"
    by (simp add: objectives_def)
next
  assume "\<forall>(n, t) \<in> set objs. \<not> gt_cell t ut"
  then show "suggest_goal objs ut sq be dl = AlreadyAboveAllGoals"
    by (simp add: suggest_goal_def loop_none)
next
  assume h: "0 < sq + be + dl \<and> (\<forall>(m, s) \<in> set pre. \<not> gt_cell s ut) \<and> ut < t"
  then have "objectives_loop (pre @ (n, Some t) # post) ut sq be dl =
             objectives_loop ((n, Some t) # post) ut sq be dl"
    by (simp add: loop_skips_prefix)
  with h show "suggest_goal (pre @ (n, Some t) # post) ut sq be dl =
        Suggested \<lparr>obj_name = n, obj_total = t, improvement_needed = t - ut,
                   squat_impr = (t - ut) * (sq / (sq + be + dl)),
                   bench_impr = (t - ut) * (be / (sq + be + dl)),
                   deadlift_impr = (t - ut) * (dl / (sq + be + dl))\<rparr>"
    by (simp add: suggest_goal_def Let_def)
next
  assume h: "analyze columns df u = Inr r \<and> prediction r = Goal g"
  then show "0 < user_squat u + user_bench u + user_deadlift u"
    by (auto simp: analyze_def Let_def split: if_splits)
  from h show "g = suggest_goal (objectives (comparison_data df u))
            (user_squat u + user_bench u + user_deadlift u)
            (user_squat u) (user_bench u) (user_deadlift u)"
    by (auto simp: analyze_def Let_def split: if_splits)
qed

theorem goal_selection_first_exceeding_witness:
  "suggest_goal [(CategoryAverage, Some 380), (Top50, Some 400), (Top25, Some 440),
                 (Top10, Some 500), (Top5, Some 550)] 400 150 100 150 =
     Suggested \<lparr>obj_name = Top25, obj_total = 440, improvement_needed = 40,
                squat_impr = 15, bench_impr = 10, deadlift_impr = 15\<rparr> \<and>
   suggest_goal [(CategoryAverage, Some 380), (Top50, Some 400), (Top25, Some 440),
                 (Top10, Some 500), (Top5, Some 550)] 600 250 150 200 = AlreadyAboveAllGoals"
  using goal_selection_first_exceeding
      [where pre = "[(CategoryAverage, Some 380), (Top50, Some 400)]" and n = Top25
         and t = 440 and post = "[(Top10, Some 500), (Top5, Some 550)]"
         and ut = 400 and sq = 150 and be = 100 and dl = 150]
    goal_selection_first_exceeding
      [where objs = "[(CategoryAverage, Some 380), (Top50, Some 400), (Top25, Some 440),
                 (Top10, Some 500), (Top5, Some 550)]" and ut = 600 and sq = 250 and be = 150
         and dl = 200]
  by simp


section \<open>Range of the percentile and order of the quantiles\<close>

lemma sort_eq_Nil: "(sort xs = []) = (xs = [])"
  by (metis length_sort length_0_conv)

lemma percentile_bounds:
  "0 \<le> percentile_less_than series v \<and> percentile_less_than series v \<le> 100"
proof (cases "dropna (map to_numeric_coerce series) = []")
  case True
  then show ?thesis
    by (simp add: percentile_less_than_def)
next
  case False
  let ?s = "dropna (map to_numeric_coerce series)"
  from False have pos: "0 < real (length ?s)"
    by simp
  have "real (length (filter (\<lambda>x. x < v) ?s)) \<le> real (length ?s)"
    by simp
  with pos have "real (length (filter (\<lambda>x. x < v) ?s)) / real (length ?s) * 100 \<le> 100"
    by (simp add: field_simps)
  moreover have "0 \<le> real (length (filter (\<lambda>x. x < v) ?s)) / real (length ?s) * 100"
    by simp
  ultimately show ?thesis
    using False by (simp add: percentile_less_than_def Let_def)
qed

lemma lerp_at_bounds:
  assumes srt: "sorted s" and ne: "s \<noteq> []" and x0: "0 \<le> x" and xn: "x \<le> real (length s - 1)"
  shows "s ! nat \<lfloor>x\<rfloor> \<le> lerp_at s x \<and>
         lerp_at s x \<le> s ! min (nat \<lfloor>x\<rfloor> + 1) (length s - 1)"
proof -
  let ?lo = "nat \<lfloor>x\<rfloor>"
  let ?hi = "min (?lo + 1) (length s - 1)"
  let ?g = "x - real ?lo"
  from x0 have lo_real: "real ?lo = of_int \<lfloor>x\<rfloor>"
    by simp
  then have g0: "0 \<le> ?g" and g1: "?g \<le> 1"
    by linarith+
  from xn have "\<lfloor>x\<rfloor> \<le> int (length s - 1)"
    by (simp add: floor_le_iff)
  then have lo_n: "?lo \<le> length s - 1"
    by simp
  then have lo_hi: "?lo \<le> ?hi"
    by simp
  from ne have hi_n: "?hi < length s"
    by (cases s) simp_all
  from srt lo_hi hi_n have d: "s ! ?lo \<le> s ! ?hi"
    by (rule sorted_nth_mono)
  then have "0 \<le> (s ! ?hi - s ! ?lo) * ?g"
    using g0 by simp
  moreover have "(s ! ?hi - s ! ?lo) * ?g \<le> s ! ?hi - s ! ?lo"
    using d g1 by (simp add: mult_left_le)
  ultimately show ?thesis
    by (simp add: lerp_at_def Let_def)
qed

lemma lerp_at_mono:
  assumes srt: "sorted s" and ne: "s \<noteq> []" and x0: "0 \<le> x" and xy: "x \<le> y"
    and yn: "y \<le> real (length s - 1)"
  shows "lerp_at s x \<le> lerp_at s y"
proof -
  let ?lx = "nat \<lfloor>x\<rfloor>"
  let ?ly = "nat \<lfloor>y\<rfloor>"
  from xy have "\<lfloor>x\<rfloor> \<le> \<lfloor>y\<rfloor>"
    by (rule floor_mono)
  then have le: "?lx \<le> ?ly"
    by simp
  from x0 xy have y0: "0 \<le> y" by simp
  from xy yn have xn: "x \<le> real (length s - 1)" by simp
  from yn have "\<lfloor>y\<rfloor> \<le> int (length s - 1)"
    by (simp add: floor_le_iff)
  then have ly_n: "?ly \<le> length s - 1"
    by simp
  from ne have ly_lt: "?ly < length s"
    using ly_n by (cases s) simp_all
  show ?thesis
  proof (cases "?lx = ?ly")
    case True
    let ?hi = "min (?lx + 1) (length s - 1)"
    have lo_hi: "?lx \<le> ?hi"
      using True ly_n by simp
    from ne have "?hi < length s"
      by (cases s) simp_all
    with srt lo_hi have "s ! ?lx \<le> s ! ?hi"
      by (rule sorted_nth_mono)
    then have "(s ! ?hi - s ! ?lx) * (x - real ?lx) \<le> (s ! ?hi - s ! ?lx) * (y - real ?lx)"
      using xy by (simp add: mult_left_mono)
    then show ?thesis
      using True by (simp add: lerp_at_def Let_def)
  next
    case False
    with le have "?lx + 1 \<le> ?ly"
      by simp
    then have "min (?lx + 1) (length s - 1) \<le> ?ly"
      by simp
    with srt have "s ! min (?lx + 1) (length s - 1) \<le> s ! ?ly"
      using ly_lt by (rule sorted_nth_mono)
    moreover have "lerp_at s x \<le> s ! min (?lx + 1) (length s - 1)"
      using lerp_at_bounds [OF srt ne x0 xn] by simp
    moreover have "s ! ?ly \<le> lerp_at s y"
      using lerp_at_bounds [OF srt ne y0 yn] by simp
    ultimately show ?thesis
      by linarith
  qed
qed

lemma quantile_mono:
  assumes "0 \<le> p" and "p \<le> q" and "q \<le> 1"
    and "quantile col p = Some a" and "quantile col q = Some b"
  shows "a \<le> b"
proof -
  let ?s = "sort (dropna col)"
  from assms(4) have ne: "?s \<noteq> []"
    by (auto simp: quantile_def Let_def split: if_splits)
  from assms(4) ne have a: "a = lerp_at ?s (p * real (length ?s - 1))"
    by (auto simp: quantile_def Let_def split: if_splits)
  from assms(5) ne have b: "b = lerp_at ?s (q * real (length ?s - 1))"
    by (auto simp: quantile_def Let_def split: if_splits)
  have "lerp_at ?s (p * real (length ?s - 1)) \<le> lerp_at ?s (q * real (length ?s - 1))"
  proof (rule lerp_at_mono)
    show "sorted ?s" by simp
    show "?s \<noteq> []" by (rule ne)
    show "0 \<le> p * real (length ?s - 1)"
      using assms(1) by simp
    show "p * real (length ?s - 1) \<le> q * real (length ?s - 1)"
      using assms(2) by (simp add: mult_right_mono)
    show "q * real (length ?s - 1) \<le> real (length ?s - 1)"
      using mult_right_mono [of q 1 "real (length ?s - 1)"] assms(3) by simp
  qed
  with a b show ?thesis by simp
qed

lemma quantile_defined:
  "dropna col \<noteq> [] \<Longrightarrow> \<exists>a. quantile col q = Some a"
  by (simp add: quantile_def Let_def sort_eq_Nil)

lemma dropna_nonempty_column:
  assumes "rs \<noteq> []" and "\<forall>r \<in> set rs. f r \<noteq> None"
  shows "dropna (map f rs) \<noteq> []"
proof -
  from assms(2) have "length (dropna (map f rs)) = length rs"
    by (induction rs) auto
  with assms(1) show ?thesis by auto
qed

text \<open>
  Claim C5. The percentile always lies in \<open>[0, 100]\<close>, and for a non-empty cohort the
  four quantile thresholds of the goal list exist and are ordered:
  50th \<open>\<le>\<close> 75th \<open>\<le>\<close> 90th \<open>\<le>\<close> 95th (in exact arithmetic).
\<close>

theorem percentile_result_guarantees:
  "0 \<le> percentile_less_than series v \<and> percentile_less_than series v \<le> 100 \<and>
   (comparison_data df u \<noteq> [] \<longrightarrow>
      (\<exists>q50 q75 q90 q95.
         quantile (map TotalKg (comparison_data df u)) (50 / 100) = Some q50 \<and>
         quantile (map TotalKg (comparison_data df u)) (75 / 100) = Some q75 \<and>
         quantile (map TotalKg (comparison_data df u)) (90 / 100) = Some q90 \<and>
         quantile (map TotalKg (comparison_data df u)) (95 / 100) = Some q95 \<and>
         q50 \<le> q75 \<and> q75 \<le> q90 \<and> q90 \<le> q95))"
proof (intro conjI impI)
  show "0 \<le> percentile_less_than series v" and "percentile_less_than series v \<le> 100"
    using percentile_bounds [of series v] by simp_all
next
  let ?col = "map TotalKg (comparison_data df u)"
  assume "comparison_data df u \<noteq> []"
  then have ne: "dropna ?col \<noteq> []"
    by (rule dropna_nonempty_column) (simp add: comparison_data_def)
  obtain q50 q75 q90 q95 where
    q: "quantile ?col (50 / 100) = Some q50" "quantile ?col (75 / 100) = Some q75"
       "quantile ?col (90 / 100) = Some q90" "quantile ?col (95 / 100) = Some q95"
    using quantile_defined [OF ne] by meson
  have "q50 \<le> q75"
    by (rule quantile_mono [OF _ _ _ q(1) q(2)]) simp_all
  moreover have "q75 \<le> q90"
    by (rule quantile_mono [OF _ _ _ q(2) q(3)]) simp_all
  moreover have "q90 \<le> q95"
    by (rule quantile_mono [OF _ _ _ q(3) q(4)]) simp_all
  ultimately show "\<exists>q50 q75 q90 q95.
         quantile ?col (50 / 100) = Some q50 \<and>
         quantile ?col (75 / 100) = Some q75 \<and>
         quantile ?col (90 / 100) = Some q90 \<and>
         quantile ?col (95 / 100) = Some q95 \<and>
         q50 \<le> q75 \<and> q75 \<le> q90 \<and> q90 \<le> q95"
    using q by blast
qed

lemma five_athletes_cohort:
  "comparison_data five_athletes lifter = five_athletes"
  by (simp add: comparison_data_def five_athletes_def athlete_def lifter_def)

lemma five_athletes_quantiles:
  "quantile (map TotalKg five_athletes) (50 / 100) = Some 100"
  "quantile (map TotalKg five_athletes) (75 / 100) = Some 110"
  "quantile (map TotalKg five_athletes) (90 / 100) = Some 116"
  "quantile (map TotalKg five_athletes) (95 / 100) = Some 118"
  by (simp_all add: five_athletes_def athlete_def quantile_def lerp_at_def Let_def)

theorem percentile_result_guarantees_witness:
  "comparison_data five_athletes lifter \<noteq> [] \<and>
   percentile_less_than (map (float_cell \<circ> TotalKg) five_athletes) 95 = 40 \<and>
   (0::real) \<le> 40 \<and> (40::real) \<le> 100 \<and>
   quantile (map TotalKg five_athletes) (50 / 100) = Some 100 \<and>
   quantile (map TotalKg five_athletes) (75 / 100) = Some 110 \<and>
   quantile (map TotalKg five_athletes) (90 / 100) = Some 116 \<and>
   quantile (map TotalKg five_athletes) (95 / 100) = Some 118 \<and>
   (100::real) \<le> 110 \<and> (110::real) \<le> 116 \<and> (116::real) \<le> 118"
proof -
  have ne: "comparison_data five_athletes lifter \<noteq> []"
    by (simp add: five_athletes_cohort) (simp add: five_athletes_def)
  have p: "percentile_less_than (map (float_cell \<circ> TotalKg) five_athletes) 95 = 40"
    by (simp add: percentile_less_than_def five_athletes_def athlete_def)
  from percentile_result_guarantees
    [where series = "map (float_cell \<circ> TotalKg) five_athletes" and v = 95
       and df = five_athletes and u = lifter] ne
  obtain q50 q75 q90 q95 where
    "0 \<le> percentile_less_than (map (float_cell \<circ> TotalKg) five_athletes) 95"
    "percentile_less_than (map (float_cell \<circ> TotalKg) five_athletes) 95 \<le> 100"
    "quantile (map TotalKg five_athletes) (50 / 100) = Some q50"
    "quantile (map TotalKg five_athletes) (75 / 100) = Some q75"
    "quantile (map TotalKg five_athletes) (90 / 100) = Some q90"
    "quantile (map TotalKg five_athletes) (95 / 100) = Some q95"
    "q50 \<le> q75" "q75 \<le> q90" "q90 \<le> q95"
    unfolding five_athletes_cohort by blast
  with p five_athletes_quantiles show ?thesis
    using ne by simp
qed


section \<open>Properties of the trend projection\<close>

lemmas date_simps = days_before_year_def days_before_month_def is_leap_def days_in_month_def

lemma col_max_upper: "col_max xs = Some m \<Longrightarrow> v \<in> set xs \<Longrightarrow> v \<le> m"
proof (cases xs)
  case Nil
  assume "v \<in> set xs"
  with Nil show ?thesis by simp
next
  case (Cons a as)
  assume "col_max xs = Some m" and v: "v \<in> set xs"
  with Cons have "m = fold max as a"
    by simp
  also have "\<dots> = Max (set (a # as))"
    by (rule Max.set_eq_fold [symmetric])
  finally have "m = Max (set xs)"
    using Cons by simp
  with v show ?thesis
    by simp
qed

lemma col_max_defined: "xs \<noteq> [] \<Longrightarrow> \<exists>m. col_max xs = Some m"
  by (cases xs) simp_all

lemma date_max_defined: "ds \<noteq> [] \<Longrightarrow> \<exists>m. date_max ds = Some m"
  by (cases ds) simp_all

text \<open>
  In the table the projected value is the larger of the extrapolation and the best
  observed value, so no observed value is above it.
\<close>

lemma projection_row_floor:
  assumes "projection_row obs = Some (pr, p)"
  shows "(\<exists>latest. date_max (map fst (dropna2 obs)) = Some latest \<and>
            p = max (snd (extrapolate (dropna2 obs) latest)) pr) \<and>
         col_max (map snd (dropna2 obs)) = Some pr \<and>
         (\<forall>v \<in> set (map snd (dropna2 obs)). v \<le> p)"
proof -
  from assms obtain latest where
    l: "date_max (map fst (dropna2 obs)) = Some latest" and
    b: "col_max (map snd (dropna2 obs)) = Some pr" and
    p: "p = max (snd (extrapolate (dropna2 obs) latest)) pr"
    by (auto simp: projection_row_def Let_def split: if_splits option.splits)
  have "\<forall>v \<in> set (map snd (dropna2 obs)). v \<le> p"
  proof
    fix v assume "v \<in> set (map snd (dropna2 obs))"
    with b have "v \<le> pr" by (rule col_max_upper)
    with p show "v \<le> p" by simp
  qed
  with l b p show ?thesis by blast
qed

lemma projection_row_few: "length (dropna2 obs) < 3 \<Longrightarrow> projection_row obs = None"
  by (simp add: projection_row_def)

lemma projection_trace_few: "length (dropna2 obs) < 3 \<Longrightarrow> projection_trace obs = None"
  by (simp add: projection_trace_def)

lemma projection_row_enough:
  assumes "3 \<le> length (dropna2 obs)"
  shows "\<exists>pr p. projection_row obs = Some (pr, p)"
proof -
  from assms have ne: "dropna2 obs \<noteq> []" by auto
  then obtain latest best where "date_max (map fst (dropna2 obs)) = Some latest"
    and "col_max (map snd (dropna2 obs)) = Some best"
    using date_max_defined [of "map fst (dropna2 obs)"] col_max_defined [of "map snd (dropna2 obs)"]
    by auto
  with assms show ?thesis
    by (simp add: projection_row_def Let_def)
qed

lemma projection_trace_enough:
  assumes "3 \<le> length (dropna2 obs)"
  shows "\<exists>t. projection_trace obs = Some t"
proof -
  from assms have ne: "dropna2 obs \<noteq> []" by auto
  then obtain latest where "date_max (map fst (dropna2 obs)) = Some latest"
    using date_max_defined [of "map fst (dropna2 obs)"] by auto
  with assms show ?thesis
    by (simp add: projection_trace_def Let_def split: prod.splits)
qed

lemma six_month_projection_entry:
  "((l, pr, p) \<in> set (six_month_projection me)) =
   (\<exists>col. (l, col) \<in> set lift_columns \<and>
          projection_row (map (\<lambda>r. (Date r, col r)) me) = Some (pr, p))"
  by (auto simp: six_month_projection_def List.map_filter_def lift_columns_def)

lemma lift_columns_functional:
  "(l, col) \<in> set lift_columns \<Longrightarrow> (l, col') \<in> set lift_columns \<Longrightarrow> col = col'"
  by (auto simp: lift_columns_def)

text \<open>
  Claim C8. With fewer than 3 observations that have both a date and a value, neither
  projection is produced: the table gets no row for the lift and the chart gets no
  projection trace. This is an ordinary result (\<open>None\<close>), and with 3 or more such
  observations both projections are produced.
\<close>

theorem too_few_observations_no_projection:
  "(length (dropna2 obs) < 3 \<longrightarrow> projection_row obs = None \<and> projection_trace obs = None) \<and>
   (3 \<le> length (dropna2 obs) \<longrightarrow>
      (\<exists>pr p. projection_row obs = Some (pr, p)) \<and> (\<exists>t. projection_trace obs = Some t)) \<and>
   (length (dropna2 (map (\<lambda>r. (Date r, col r)) me)) < 3 \<longrightarrow>
      plot_with_projection me col = None \<and>
      ((l, col) \<in> set lift_columns \<longrightarrow> l \<notin> fst ` set (six_month_projection me)))"
proof (intro conjI impI)
  assume "length (dropna2 obs) < 3"
  then show "projection_row obs = None" and "projection_trace obs = None"
    by (simp_all add: projection_row_few projection_trace_few)
next
  assume "3 \<le> length (dropna2 obs)"
  then show "\<exists>pr p. projection_row obs = Some (pr, p)" and "\<exists>t. projection_trace obs = Some t"
    by (simp_all add: projection_row_enough projection_trace_enough)
next
  assume few: "length (dropna2 (map (\<lambda>r. (Date r, col r)) me)) < 3"
  then show "plot_with_projection me col = None"
    by (simp add: plot_with_projection_def projection_trace_few)
  assume lc: "(l, col) \<in> set lift_columns"
  show "l \<notin> fst ` set (six_month_projection me)"
  proof
    assume "l \<in> fst ` set (six_month_projection me)"
    then obtain pr p where "(l, pr, p) \<in> set (six_month_projection me)"
      by auto
    then obtain col' where c': "(l, col') \<in> set lift_columns"
      and r: "projection_row (map (\<lambda>r. (Date r, col' r)) me) = Some (pr, p)"
      by (auto simp: six_month_projection_entry)
    from lc c' have "col = col'" by (rule lift_columns_functional)
    with r few show False
      by (simp add: projection_row_few)
  qed
qed

theorem too_few_observations_no_projection_witness:
  "length (dropna2 (map (\<lambda>r. (Date r, Best3SquatKg r)) (take 2 rising))) = 2 \<and>
   plot_with_projection (take 2 rising) Best3SquatKg = None \<and>
   six_month_projection (take 2 rising) = [] \<and>
   length (dropna2 (map (\<lambda>r. (Date r, Best3SquatKg r)) rising)) = 3 \<and>
   projection_row (map (\<lambda>r. (Date r, Best3SquatKg r)) rising) = Some (110, 422 / 3)"
proof -
  let ?two = "map (\<lambda>r. (Date r, Best3SquatKg r)) (take 2 rising)"
  let ?three = "map (\<lambda>r. (Date r, Best3SquatKg r)) rising"
  have two: "length (dropna2 ?two) = 2"
    by (simp add: rising_def meet_def)
  have three: "length (dropna2 ?three) = 3"
    by (simp add: rising_def meet_def)
  from too_few_observations_no_projection
    [where obs = ?three and me = "take 2 rising" and col = Best3SquatKg and l = Squat] two three
  have "plot_with_projection (take 2 rising) Best3SquatKg = None"
    and "\<exists>pr p. projection_row ?three = Some (pr, p)"
    by simp_all
  moreover have "six_month_projection (take 2 rising) = []"
    by (simp add: six_month_projection_def List.map_filter_def lift_columns_def
        projection_row_def rising_def meet_def)
  moreover have "projection_row ?three = Some (110, 422 / 3)"
    by (simp add: projection_row_def rising_def meet_def extrapolate_def polyfit1_def
        date_simps Let_def)
  ultimately show ?thesis
    using two three by simp
qed

text \<open>
  Claim C1. For the athlete whose squat went 110, 105, 100, the chart of
  \<^verbatim>\<open>plot_with_projection\<close> ends its "Proyecci\'on 6m" trace at the raw extrapolation
  \<open>208 / 3\<close> (about 69.3), below the best observed squat 110, while the table built from
  the same rows shows 110 for the same projection.
\<close>

theorem chart_projection_below_best:
  "plot_with_projection declining Best3SquatKg =
     Some \<lparr>from_year = 2020, to_year = 2020, from_value = 100, to_value = 208 / 3\<rparr> \<and>
   (208 / 3 :: real) < 110 \<and>
   six_month_projection declining = [(Squat, 110, 110)]"
  by (simp add: plot_with_projection_def projection_trace_def six_month_projection_def
      List.map_filter_def lift_columns_def projection_row_def declining_def meet_def
      extrapolate_def polyfit1_def date_simps Let_def)

section \<open>Properties of the filters\<close>

lemma between_Some: "between c lo hi = (\<exists>x. c = Some x \<and> lo \<le> x \<and> x \<le> hi)"
  by (cases c) (auto simp: between_def)

lemma eq_obj_Str: "eq_obj c v = (c = Str v)"
  by (cases c) auto

lemma filtered_eq_filter:
  "filtered c D =
     filter (\<lambda>r. (sex c \<noteq> ''Todos'' \<longrightarrow> Sex r = Str (sex c)) \<and>
                 (equipment c \<noteq> ''Todos'' \<longrightarrow> Equipment r = Str (equipment c)) \<and>
                 (country c \<noteq> ''Todos'' \<longrightarrow> Country r = Str (country c)) \<and>
                 (age_class c \<noteq> ''Todos'' \<longrightarrow> AgeClass r = Str (age_class c)) \<and>
                 between (Year r) (fst (year_range c)) (snd (year_range c)) \<and>
                 between (TotalKg r) (fst (total_range c)) (snd (total_range c))) D"
  unfolding filtered_def Let_def
  by (auto simp: between_def eq_obj_Str intro!: filter_cong)

lemma filtered_df_eq_filter:
  "filtered_df cols c D =
     filter (\<lambda>r. (''Sex'' \<in> set cols \<and> sex c \<noteq> ''Todos'' \<longrightarrow> astype_str (Sex r) = sex c) \<and>
                 (''Equipment'' \<in> set cols \<and> equipment c \<noteq> ''Todos'' \<longrightarrow>
                    astype_str (Equipment r) = equipment c) \<and>
                 (''Country'' \<in> set cols \<and> country c \<noteq> ''Todos'' \<longrightarrow>
                    astype_str (Country r) = country c) \<and>
                 (''AgeClass'' \<in> set cols \<and> age_class c \<noteq> ''Todos'' \<longrightarrow>
                    astype_str (AgeClass r) = age_class c) \<and>
                 (''Year'' \<in> set cols \<longrightarrow>
                    between (Year r) (fst (year_range c)) (snd (year_range c))) \<and>
                 (''TotalKg'' \<in> set cols \<longrightarrow>
                    between (TotalKg r) (fst (total_range c)) (snd (total_range c)))) D"
  unfolding filtered_df_def Let_def
  by (auto simp: between_def intro!: filter_cong)

lemma astype_str_notna:
  "astype_str x = v \<Longrightarrow> v \<noteq> ''None'' \<Longrightarrow> v \<noteq> ''nan'' \<Longrightarrow> notna_obj x"
  by (cases x) auto

text \<open>
  Two runs of the filters. In \<^verbatim>\<open>app.py\<close>, with every selection at \<^verbatim>\<open>'Todos'\<close> and both
  sliders at the ends of their columns (2019 to 2021, 100 to 120), the result with no total
  is dropped: the range test is applied on every run, and a comparison with a null is
  False. In \<^verbatim>\<open>app_parquet.py\<close>, with the country \<^verbatim>\<open>'None'\<close> selected (a choice the
  first row puts in the list), the row whose country is null is kept: \<^verbatim>\<open>astype(str)\<close>
  prints the null as that text.
\<close>

theorem filter_null_counterexample:
  "Min (set (dropna (map Year with_null_total))) = 2019 \<and>
   Max (set (dropna (map Year with_null_total))) = 2021 \<and>
   Min (set (dropna (map TotalKg with_null_total))) = 100 \<and>
   Max (set (dropna (map TotalKg with_null_total))) = 120 \<and>
   filtered (todos (2019, 2021) (100, 120)) with_null_total =
     [entry ''M'' (Str ''USA'') 2019 (Some 100), entry ''M'' (Str ''USA'') 2021 (Some 120)] \<and>
   filtered (todos (2019, 2021) (100, 120)) with_null_total \<noteq> with_null_total \<and>
   filtered_df all_columns ((todos (2009, 2021) (100, 120))\<lparr>country := ''None''\<rparr>)
       with_null_country =
     [entry ''M'' (Str ''None'') 2009 (Some 100), entry ''F'' PyNone 2021 (Some 120)] \<and>
   Country (entry ''F'' PyNone 2021 (Some 120)) = PyNone"
  by (simp add: with_null_total_def with_null_country_def entry_def todos_def
      filtered_def filtered_df_def all_columns_def)

lemma unset_ranges_app:
  assumes "sex c = ''Todos''" "equipment c = ''Todos''" "country c = ''Todos''"
    "age_class c = ''Todos''"
    and yr: "\<forall>r \<in> set D. \<forall>y. Year r = Some y \<longrightarrow> fst (year_range c) \<le> y \<and> y \<le> snd (year_range c)"
    and tr: "\<forall>r \<in> set D. \<forall>t. TotalKg r = Some t \<longrightarrow>
               fst (total_range c) \<le> t \<and> t \<le> snd (total_range c)"
  shows "filtered c D = filter (\<lambda>r. Year r \<noteq> None \<and> TotalKg r \<noteq> None) D"
  unfolding filtered_eq_filter
  using assms by (auto simp: between_Some intro!: filter_cong)

lemma unset_ranges_parquet:
  assumes "sex c = ''Todos''" "equipment c = ''Todos''" "country c = ''Todos''"
    "age_class c = ''Todos''"
    and yr: "\<forall>r \<in> set D. \<forall>y. Year r = Some y \<longrightarrow> fst (year_range c) \<le> y \<and> y \<le> snd (year_range c)"
    and tr: "\<forall>r \<in> set D. \<forall>t. TotalKg r = Some t \<longrightarrow>
               fst (total_range c) \<le> t \<and> t \<le> snd (total_range c)"
  shows "filtered_df cols c D =
         filter (\<lambda>r. (''Year'' \<in> set cols \<longrightarrow> Year r \<noteq> None) \<and>
                     (''TotalKg'' \<in> set cols \<longrightarrow> TotalKg r \<noteq> None)) D"
  unfolding filtered_df_eq_filter
  using assms by (auto simp: between_Some intro!: filter_cong)

text \<open>
  Claim C3, as amended. In both dashboards the filter result is a subset of the dataset
  and every row of it satisfies every active criterion; a row with a null year or total
  is never in it (in \<^verbatim>\<open>app_parquet.py\<close>: when the column is present), and a row with a null
  in a constrained text column is never in the result of \<^verbatim>\<open>app.py\<close>, nor in that of
  \<^verbatim>\<open>app_parquet.py\<close> when the selection is not the text \<^verbatim>\<open>'None'\<close> or \<^verbatim>\<open>'nan'\<close>.
  When every selection is \<^verbatim>\<open>'Todos'\<close> and the ranges span all years and totals of the
  dataset, the result is the dataset without the rows whose year or total is null; it is
  the whole dataset when there is no such row.
\<close>

theorem filter_subset_and_sound:
  "set (filtered c D) \<subseteq> set D \<and>
   (\<forall>r \<in> set (filtered c D).
      (sex c \<noteq> ''Todos'' \<longrightarrow> Sex r = Str (sex c)) \<and>
      (equipment c \<noteq> ''Todos'' \<longrightarrow> Equipment r = Str (equipment c)) \<and>
      (country c \<noteq> ''Todos'' \<longrightarrow> Country r = Str (country c)) \<and>
      (age_class c \<noteq> ''Todos'' \<longrightarrow> AgeClass r = Str (age_class c)) \<and>
      between (Year r) (fst (year_range c)) (snd (year_range c)) \<and>
      between (TotalKg r) (fst (total_range c)) (snd (total_range c)) \<and>
      Year r \<noteq> None \<and> TotalKg r \<noteq> None) \<and>
   set (filtered_df cols c D) \<subseteq> set D \<and>
   (\<forall>r \<in> set (filtered_df cols c D).
      (''Sex'' \<in> set cols \<and> sex c \<noteq> ''Todos'' \<longrightarrow> astype_str (Sex r) = sex c) \<and>
      (''Equipment'' \<in> set cols \<and> equipment c \<noteq> ''Todos'' \<longrightarrow>
         astype_str (Equipment r) = equipment c) \<and>
      (''Country'' \<in> set cols \<and> country c \<noteq> ''Todos'' \<longrightarrow>
         astype_str (Country r) = country c) \<and>
      (''AgeClass'' \<in> set cols \<and> age_class c \<noteq> ''Todos'' \<longrightarrow>
         astype_str (AgeClass r) = age_class c) \<and>
      (''Year'' \<in> set cols \<longrightarrow>
         between (Year r) (fst (year_range c)) (snd (year_range c)) \<and> Year r \<noteq> None) \<and>
      (''TotalKg'' \<in> set cols \<longrightarrow>
         between (TotalKg r) (fst (total_range c)) (snd (total_range c)) \<and> TotalKg r \<noteq> None) \<and>
      (''Sex'' \<in> set cols \<and> sex c \<notin> {''Todos'', ''None'', ''nan''} \<longrightarrow> notna_obj (Sex r)) \<and>
      (''Equipment'' \<in> set cols \<and> equipment c \<notin> {''Todos'', ''None'', ''nan''} \<longrightarrow>
         notna_obj (Equipment r)) \<and>
      (''Country'' \<in> set cols \<and> country c \<notin> {''Todos'', ''None'', ''nan''} \<longrightarrow>
         notna_obj (Country r)) \<and>
      (''AgeClass'' \<in> set cols \<and> age_class c \<notin> {''Todos'', ''None'', ''nan''} \<longrightarrow>
         notna_obj (AgeClass r))) \<and>
   (sex c = ''Todos'' \<and> equipment c = ''Todos'' \<and> country c = ''Todos'' \<and>
    age_class c = ''Todos'' \<and>
    (\<forall>r \<in> set D. \<forall>y. Year r = Some y \<longrightarrow> fst (year_range c) \<le> y \<and> y \<le> snd (year_range c)) \<and>
    (\<forall>r \<in> set D. \<forall>t. TotalKg r = Some t \<longrightarrow>
       fst (total_range c) \<le> t \<and> t \<le> snd (total_range c)) \<longrightarrow>
      filtered c D = filter (\<lambda>r. Year r \<noteq> None \<and> TotalKg r \<noteq> None) D \<and>
      filtered_df cols c D =
        filter (\<lambda>r. (''Year'' \<in> set cols \<longrightarrow> Year r \<noteq> None) \<and>
                    (''TotalKg'' \<in> set cols \<longrightarrow> TotalKg r \<noteq> None)) D \<and>
      ((\<forall>r \<in> set D. Year r \<noteq> None \<and> TotalKg r \<noteq> None) \<longrightarrow>
         filtered c D = D \<and> filtered_df cols c D = D))"
proof (intro conjI)
  show "set (filtered c D) \<subseteq> set D"
    by (simp add: filtered_eq_filter)
  show "\<forall>r \<in> set (filtered c D).
      (sex c \<noteq> ''Todos'' \<longrightarrow> Sex r = Str (sex c)) \<and>
      (equipment c \<noteq> ''Todos'' \<longrightarrow> Equipment r = Str (equipment c)) \<and>
      (country c \<noteq> ''Todos'' \<longrightarrow> Country r = Str (country c)) \<and>
      (age_class c \<noteq> ''Todos'' \<longrightarrow> AgeClass r = Str (age_class c)) \<and>
      between (Year r) (fst (year_range c)) (snd (year_range c)) \<and>
      between (TotalKg r) (fst (total_range c)) (snd (total_range c)) \<and>
      Year r \<noteq> None \<and> TotalKg r \<noteq> None"
    by (auto simp: filtered_eq_filter between_Some)
  show "set (filtered_df cols c D) \<subseteq> set D"
    by (simp add: filtered_df_eq_filter)
  show "\<forall>r \<in> set (filtered_df cols c D).
      (''Sex'' \<in> set cols \<and> sex c \<noteq> ''Todos'' \<longrightarrow> astype_str (Sex r) = sex c) \<and>
      (''Equipment'' \<in> set cols \<and> equipment c \<noteq> ''Todos'' \<longrightarrow>
         astype_str (Equipment r) = equipment c) \<and>
      (''Country'' \<in> set cols \<and> country c \<noteq> ''Todos'' \<longrightarrow>
         astype_str (Country r) = country c) \<and>
      (''AgeClass'' \<in> set cols \<and> age_class c \<noteq> ''Todos'' \<longrightarrow>
         astype_str (AgeClass r) = age_class c) \<and>
      (''Year'' \<in> set cols \<longrightarrow>
         between (Year r) (fst (year_range c)) (snd (year_range c)) \<and> Year r \<noteq> None) \<and>
      (''TotalKg'' \<in> set cols \<longrightarrow>
         between (TotalKg r) (fst (total_range c)) (snd (total_range c)) \<and> TotalKg r \<noteq> None) \<and>
      (''Sex'' \<in> set cols \<and> sex c \<notin> {''Todos'', ''None'', ''nan''} \<longrightarrow> notna_obj (Sex r)) \<and>
      (''Equipment'' \<in> set cols \<and> equipment c \<notin> {''Todos'', ''None'', ''nan''} \<longrightarrow>
         notna_obj (Equipment r)) \<and>
      (''Country'' \<in> set cols \<and> country c \<notin> {''Todos'', ''None'', ''nan''} \<longrightarrow>
         notna_obj (Country r)) \<and>
      (''AgeClass'' \<in> set cols \<and> age_class c \<notin> {''Todos'', ''None'', ''nan''} \<longrightarrow>
         notna_obj (AgeClass r))"
  proof
    fix r assume "r \<in> set (filtered_df cols c D)"
    then have m:
      "''Sex'' \<in> set cols \<and> sex c \<noteq> ''Todos'' \<longrightarrow> astype_str (Sex r) = sex c"
      "''Equipment'' \<in> set cols \<and> equipment c \<noteq> ''Todos'' \<longrightarrow>
         astype_str (Equipment r) = equipment c"
      "''Country'' \<in> set cols \<and> country c \<noteq> ''Todos'' \<longrightarrow> astype_str (Country r) = country c"
      "''AgeClass'' \<in> set cols \<and> age_class c \<noteq> ''Todos'' \<longrightarrow>
         astype_str (AgeClass r) = age_class c"
      "''Year'' \<in> set cols \<longrightarrow> between (Year r) (fst (year_range c)) (snd (year_range c))"
      "''TotalKg'' \<in> set cols \<longrightarrow>
         between (TotalKg r) (fst (total_range c)) (snd (total_range c))"
      by (simp_all add: filtered_df_eq_filter)
    from m(5) have y: "''Year'' \<in> set cols \<longrightarrow> Year r \<noteq> None"
      by (auto simp: between_Some)
    from m(6) have t: "''TotalKg'' \<in> set cols \<longrightarrow> TotalKg r \<noteq> None"
      by (auto simp: between_Some)
    from m(1) have n1: "''Sex'' \<in> set cols \<and> sex c \<notin> {''Todos'', ''None'', ''nan''} \<longrightarrow>
        notna_obj (Sex r)"
      using astype_str_notna [of "Sex r" "sex c"] by blast
    from m(2) have n2: "''Equipment'' \<in> set cols \<and> equipment c \<notin> {''Todos'', ''None'', ''nan''} \<longrightarrow>
        notna_obj (Equipment r)"
      using astype_str_notna [of "Equipment r" "equipment c"] by blast
    from m(3) have n3: "''Country'' \<in> set cols \<and> country c \<notin> {''Todos'', ''None'', ''nan''} \<longrightarrow>
        notna_obj (Country r)"
      using astype_str_notna [of "Country r" "country c"] by blast
    from m(4) have n4: "''AgeClass'' \<in> set cols \<and> age_class c \<notin> {''Todos'', ''None'', ''nan''} \<longrightarrow>
        notna_obj (AgeClass r)"
      using astype_str_notna [of "AgeClass r" "age_class c"] by blast
    from m y t n1 n2 n3 n4 show
     "(''Sex'' \<in> set cols \<and> sex c \<noteq> ''Todos'' \<longrightarrow> astype_str (Sex r) = sex c) \<and>
      (''Equipment'' \<in> set cols \<and> equipment c \<noteq> ''Todos'' \<longrightarrow>
         astype_str (Equipment r) = equipment c) \<and>
      (''Country'' \<in> set cols \<and> country c \<noteq> ''Todos'' \<longrightarrow>
         astype_str (Country r) = country c) \<and>
      (''AgeClass'' \<in> set cols \<and> age_class c \<noteq> ''Todos'' \<longrightarrow>
         astype_str (AgeClass r) = age_class c) \<and>
      (''Year'' \<in> set cols \<longrightarrow>
         between (Year r) (fst (year_range c)) (snd (year_range c)) \<and> Year r \<noteq> None) \<and>
      (''TotalKg'' \<in> set cols \<longrightarrow>
         between (TotalKg r) (fst (total_range c)) (snd (total_range c)) \<and> TotalKg r \<noteq> None) \<and>
      (''Sex'' \<in> set cols \<and> sex c \<notin> {''Todos'', ''None'', ''nan''} \<longrightarrow> notna_obj (Sex r)) \<and>
      (''Equipment'' \<in> set cols \<and> equipment c \<notin> {''Todos'', ''None'', ''nan''} \<longrightarrow>
         notna_obj (Equipment r)) \<and>
      (''Country'' \<in> set cols \<and> country c \<notin> {''Todos'', ''None'', ''nan''} \<longrightarrow>
         notna_obj (Country r)) \<and>
      (''AgeClass'' \<in> set cols \<and> age_class c \<notin> {''Todos'', ''None'', ''nan''} \<longrightarrow>
         notna_obj (AgeClass r))"
      by blast
  qed
  show "sex c = ''Todos'' \<and> equipment c = ''Todos'' \<and> country c = ''Todos'' \<and>
    age_class c = ''Todos'' \<and>
    (\<forall>r \<in> set D. \<forall>y. Year r = Some y \<longrightarrow> fst (year_range c) \<le> y \<and> y \<le> snd (year_range c)) \<and>
    (\<forall>r \<in> set D. \<forall>t. TotalKg r = Some t \<longrightarrow>
       fst (total_range c) \<le> t \<and> t \<le> snd (total_range c)) \<longrightarrow>
      filtered c D = filter (\<lambda>r. Year r \<noteq> None \<and> TotalKg r \<noteq> None) D \<and>
      filtered_df cols c D =
        filter (\<lambda>r. (''Year'' \<in> set cols \<longrightarrow> Year r \<noteq> None) \<and>
                    (''TotalKg'' \<in> set cols \<longrightarrow> TotalKg r \<noteq> None)) D \<and>
      ((\<forall>r \<in> set D. Year r \<noteq> None \<and> TotalKg r \<noteq> None) \<longrightarrow>
         filtered c D = D \<and> filtered_df cols c D = D)"
  proof (intro impI)
    assume h: "sex c = ''Todos'' \<and> equipment c = ''Todos'' \<and> country c = ''Todos'' \<and>
      age_class c = ''Todos'' \<and>
      (\<forall>r \<in> set D. \<forall>y. Year r = Some y \<longrightarrow> fst (year_range c) \<le> y \<and> y \<le> snd (year_range c)) \<and>
      (\<forall>r \<in> set D. \<forall>t. TotalKg r = Some t \<longrightarrow>
         fst (total_range c) \<le> t \<and> t \<le> snd (total_range c))"
    then have a: "filtered c D = filter (\<lambda>r. Year r \<noteq> None \<and> TotalKg r \<noteq> None) D"
      by (intro unset_ranges_app) simp_all
    from h have b: "filtered_df cols c D =
        filter (\<lambda>r. (''Year'' \<in> set cols \<longrightarrow> Year r \<noteq> None) \<and>
                    (''TotalKg'' \<in> set cols \<longrightarrow> TotalKg r \<noteq> None)) D"
      by (intro unset_ranges_parquet) simp_all
    have "(\<forall>r \<in> set D. Year r \<noteq> None \<and> TotalKg r \<noteq> None) \<longrightarrow>
         filtered c D = D \<and> filtered_df cols c D = D"
      unfolding a b by (auto simp: filter_id_conv)
    with a b show "filtered c D = filter (\<lambda>r. Year r \<noteq> None \<and> TotalKg r \<noteq> None) D \<and>
      filtered_df cols c D =
        filter (\<lambda>r. (''Year'' \<in> set cols \<longrightarrow> Year r \<noteq> None) \<and>
                    (''TotalKg'' \<in> set cols \<longrightarrow> TotalKg r \<noteq> None)) D \<and>
      ((\<forall>r \<in> set D. Year r \<noteq> None \<and> TotalKg r \<noteq> None) \<longrightarrow>
         filtered c D = D \<and> filtered_df cols c D = D)"
      by blast
  qed
qed

theorem filter_subset_and_sound_witness:
  "filtered (todos (2009, 2021) (100, 120)) with_null_country = with_null_country \<and>
   filtered_df all_columns (todos (2009, 2021) (100, 120)) with_null_country =
     with_null_country \<and>
   filtered (todos (2019, 2021) (100, 120)) with_null_total =
     filter (\<lambda>r. Year r \<noteq> None \<and> TotalKg r \<noteq> None) with_null_total \<and>
   filtered ((todos (2009, 2021) (100, 120))\<lparr>sex := ''F''\<rparr>) with_null_country =
     [entry ''F'' PyNone 2021 (Some 120)] \<and>
   set (filtered ((todos (2009, 2021) (100, 120))\<lparr>sex := ''F''\<rparr>) with_null_country)
     \<subseteq> set with_null_country \<and>
   Sex (entry ''F'' PyNone 2021 (Some 120)) = Str ''F'' \<and>
   TotalKg (entry ''F'' PyNone 2021 (Some 120)) \<noteq> None"
proof -
  let ?wide = "todos (2009, 2021) (100, 120)"
  let ?late = "todos (2019, 2021) (100, 120)"
  let ?f = "?wide\<lparr>sex := ''F''\<rparr>"
  have pre_wide: "sex ?wide = ''Todos'' \<and> equipment ?wide = ''Todos'' \<and>
      country ?wide = ''Todos'' \<and> age_class ?wide = ''Todos''"
    by (simp add: todos_def)
  have pre_late: "sex ?late = ''Todos'' \<and> equipment ?late = ''Todos'' \<and>
      country ?late = ''Todos'' \<and> age_class ?late = ''Todos''"
    by (simp add: todos_def)
  have cover_wide: "(\<forall>r \<in> set with_null_country. \<forall>y. Year r = Some y \<longrightarrow>
        fst (year_range ?wide) \<le> y \<and> y \<le> snd (year_range ?wide)) \<and>
     (\<forall>r \<in> set with_null_country. \<forall>t. TotalKg r = Some t \<longrightarrow>
        fst (total_range ?wide) \<le> t \<and> t \<le> snd (total_range ?wide)) \<and>
     (\<forall>r \<in> set with_null_country. Year r \<noteq> None \<and> TotalKg r \<noteq> None)"
    by (simp add: todos_def entry_def with_null_country_def)
  have cover_late: "(\<forall>r \<in> set with_null_total. \<forall>y. Year r = Some y \<longrightarrow>
        fst (year_range ?late) \<le> y \<and> y \<le> snd (year_range ?late)) \<and>
     (\<forall>r \<in> set with_null_total. \<forall>t. TotalKg r = Some t \<longrightarrow>
        fst (total_range ?late) \<le> t \<and> t \<le> snd (total_range ?late))"
    by (simp add: todos_def entry_def with_null_total_def)
  from filter_subset_and_sound [of ?wide with_null_country all_columns] pre_wide cover_wide
  have a: "filtered ?wide with_null_country = with_null_country \<and>
      filtered_df all_columns ?wide with_null_country = with_null_country"
    by blast
  from filter_subset_and_sound [of ?late with_null_total all_columns] pre_late cover_late
  have b: "filtered ?late with_null_total =
      filter (\<lambda>r. Year r \<noteq> None \<and> TotalKg r \<noteq> None) with_null_total"
    by blast
  have sexf: "sex ?f \<noteq> ''Todos''" "sex ?f = ''F''"
    by (simp_all add: todos_def)
  have c: "set (filtered ?f with_null_country) \<subseteq> set with_null_country"
    by (rule filter_subset_and_sound [of ?f with_null_country all_columns, THEN conjunct1])
  have d: "\<forall>r \<in> set (filtered ?f with_null_country).
              (sex ?f \<noteq> ''Todos'' \<longrightarrow> Sex r = Str (sex ?f)) \<and> TotalKg r \<noteq> None"
    using filter_subset_and_sound
      [of ?f with_null_country all_columns, THEN conjunct2, THEN conjunct1]
    by fast
  from d sexf have d': "\<forall>r \<in> set (filtered ?f with_null_country).
      Sex r = Str ''F'' \<and> TotalKg r \<noteq> None"
    by simp
  have e: "filtered ?f with_null_country = [entry ''F'' PyNone 2021 (Some 120)]"
    by (simp add: filtered_def todos_def with_null_country_def entry_def)
  from d' e have f: "Sex (entry ''F'' PyNone 2021 (Some 120)) = Str ''F'' \<and>
      TotalKg (entry ''F'' PyNone 2021 (Some 120)) \<noteq> None"
    by simp
  from a b c e f show ?thesis
    by blast
qed

end
